theory Spec2Isabelle
  imports Complex_Main "HOL-Library.FSet" "HOL-Library.Log_Nat"
    "HOL-Library.Char_ord" "HOL-Library.List_Lexorder"
begin

section \<open>Go values\<close>

text \<open>
  The resource works on untyped documents: \<^verbatim>\<open>map[string]interface{}\<close> values whose
  entries are inspected with type assertions. \<open>gval\<close> is the \<^verbatim>\<open>interface{}\<close> of the
  model, one constructor per dynamic type that occurs in
  \<^verbatim>\<open>logic_app_trigger_recurrence_resource.go\<close>:
  \<^item> \<open>GNil\<close>: the nil interface (JSON \<^verbatim>\<open>null\<close>);
  \<^item> \<open>GString\<close>, \<open>GInt\<close>, \<open>GFloat64\<close>: \<^verbatim>\<open>string\<close>, \<^verbatim>\<open>int\<close>, \<^verbatim>\<open>float64\<close>; a finite
    \<^verbatim>\<open>float64\<close> is represented by the real number it denotes;
  \<^item> \<open>GSlice\<close>: \<^verbatim>\<open>[]interface{}\<close>;
  \<^item> \<open>GIntSlicePtr\<close>, \<open>GStringSlicePtr\<close>: \<^verbatim>\<open>*[]int\<close> and \<^verbatim>\<open>*[]string\<close>, the values
    \<^verbatim>\<open>&hours\<close>, \<^verbatim>\<open>&minutes\<close>, \<^verbatim>\<open>&days\<close> stored by the schedule expander;
  \<^item> \<open>GMap\<close>: \<^verbatim>\<open>map[string]interface{}\<close>.
\<close>

datatype gval =
    GNil
  | GString string
  | GInt int
  | GFloat64 real
  | GSlice "gval list"
  | GIntSlicePtr "int list"
  | GStringSlicePtr "string list"
  | GMap "string \<Rightarrow> gval option"

type_synonym go_map = "string \<Rightarrow> gval option"

text \<open>
  \<^verbatim>\<open>m[k]\<close> in its one-value form: the value stored under \<open>k\<close>, and nil when the key
  is missing. A key stored with a nil value reads the same as a missing key.
\<close>

definition index :: "go_map \<Rightarrow> string \<Rightarrow> gval" where
  "index m k = (case m k of None \<Rightarrow> GNil | Some v \<Rightarrow> v)"

text \<open>
  What ends a Go function other than a return: a failed one-value type assertion
  \<^verbatim>\<open>x.(T)\<close> and a nil pointer dereference both panic.
\<close>

datatype go_panic = TypeAssertionPanic | NilDereferencePanic

definition and_then :: "go_panic + 'a \<Rightarrow> ('a \<Rightarrow> go_panic + 'b) \<Rightarrow> go_panic + 'b" where
  "and_then r f = (case r of Inl p \<Rightarrow> Inl p | Inr x \<Rightarrow> f x)"

text \<open>The one-value type assertions of the Read path.\<close>

definition assert_string :: "gval \<Rightarrow> go_panic + string" where
  "assert_string x = (case x of GString s \<Rightarrow> Inr s | _ \<Rightarrow> Inl TypeAssertionPanic)"

definition assert_float64 :: "gval \<Rightarrow> go_panic + real" where
  "assert_float64 x = (case x of GFloat64 f \<Rightarrow> Inr f | _ \<Rightarrow> Inl TypeAssertionPanic)"

definition assert_map :: "gval \<Rightarrow> go_panic + go_map" where
  "assert_map x = (case x of GMap m \<Rightarrow> Inr m | _ \<Rightarrow> Inl TypeAssertionPanic)"

text \<open>
  The conversion \<^verbatim>\<open>int(f)\<close> of a \<^verbatim>\<open>float64\<close>: the fraction is discarded (truncation
  towards zero). Go leaves the result implementation-dependent when the truncated value
  does not fit an \<^verbatim>\<open>int\<close>; the theorems below use the conversion only on values
  of magnitude at most \<open>2 ^ 53\<close>.
\<close>

definition go_int :: "real \<Rightarrow> int" where
  "go_int f = (if 0 \<le> f then \<lfloor>f\<rfloor> else \<lceil>f\<rceil>)"

text \<open>
  An error value built by \<^verbatim>\<open>fmt.Errorf(format, args...)\<close>: the format string and the
  arguments that fill its verbs, in order.
\<close>

datatype error = Errorf string "string list"

section \<open>The plugin SDK: resource data\<close>

text \<open>
  \<^verbatim>\<open>*schema.ResourceData\<close> belongs to the Terraform plugin SDK. The model keeps the
  part of it the resource uses: the resource id and one slot per key of the schema
  (lines 30 to 120). A slot is \<open>None\<close> while the key has never been given a value.

  The \<^verbatim>\<open>schedule\<close> key is a list (at most one item) of nested resources; an item is
  \<^verbatim>\<open>nil\<close> or a \<^verbatim>\<open>map[string]interface{}\<close> holding a \<^verbatim>\<open>*schema.Set\<close> under each of
  its three keys. The schema fixes the dynamic types of these values, so the model types
  them: a set of \<^verbatim>\<open>TypeInt\<close> is an \<open>int fset\<close>, a set of \<^verbatim>\<open>TypeString\<close> a
  \<open>string fset\<close>, and a key of the item is \<open>None\<close> when the map has no such key.
\<close>

record schedule_attrs =
  at_these_hours :: "int fset option"
  at_these_minutes :: "int fset option"
  on_these_days :: "string fset option"

record ResourceData =
  resource_id :: string
  name :: "string option"
  logic_app_id :: "string option"
  frequency :: "string option"
  interval :: "int option"
  start_time :: "string option"
  time_zone :: "string option"
  schedule :: "schedule_attrs option list"

text \<open>
  \<^verbatim>\<open>d.Get(key)\<close> returns the value of the key, and the zero value of its type when
  it has none. \<^verbatim>\<open>d.GetOk(key)\<close> returns the value together with a flag that holds
  when the key has a value and that value is not the zero value of its type (the empty
  string, the empty list).
\<close>

definition Get_string :: "string option \<Rightarrow> string" where
  "Get_string slot = (case slot of None \<Rightarrow> [] | Some s \<Rightarrow> s)"

definition Get_int :: "int option \<Rightarrow> int" where
  "Get_int slot = (case slot of None \<Rightarrow> 0 | Some n \<Rightarrow> n)"

definition GetOk_string :: "string option \<Rightarrow> string \<times> bool" where
  "GetOk_string slot = (case slot of None \<Rightarrow> ([], False) | Some s \<Rightarrow> (s, s \<noteq> []))"

definition GetOk_list :: "'a list \<Rightarrow> 'a list \<times> bool" where
  "GetOk_list xs = (xs, xs \<noteq> [])"

text \<open>
  \<^verbatim>\<open>(*schema.Set).List()\<close> returns the elements of a set, each once, in the order of
  the SDK's hash codes. That order is a function of the set which the resource does not
  control, so the model takes it as a parameter: \<open>int_List\<close> and \<open>string_List\<close>
  enumerate a set of integers and a set of strings. \<open>set_order_ok\<close> is what the SDK
  guarantees of them.
\<close>

record set_order =
  int_List :: "int fset \<Rightarrow> int list"
  string_List :: "string fset \<Rightarrow> string list"

definition set_order_ok :: "set_order \<Rightarrow> bool" where
  "set_order_ok L =
     ((\<forall>s. fset_of_list (int_List L s) = s \<and> distinct (int_List L s)) \<and>
      (\<forall>s. fset_of_list (string_List L s) = s \<and> distinct (string_List L s)))"

text \<open>The enumeration in ascending order is one such order.\<close>

definition sorted_order :: set_order where
  "sorted_order = \<lparr> int_List = sorted_list_of_fset, string_List = sorted_list_of_fset \<rparr>"

section \<open>The plugin SDK: validation\<close>

text \<open>
  \<^verbatim>\<open>validation.StringInSlice(valid, ignoreCase)\<close> builds a validation function: the
  value must be a string, and the loop over \<open>valid\<close> stops at the first entry equal to
  it (or equal to it after lower-casing both, when \<open>ignoreCase\<close> is set). The function of
  the model returns whether the value is accepted, that is, whether the SDK's function
  reports no error. \<open>ToLower\<close> lower-cases ASCII letters; every call of this resource
  passes \<^verbatim>\<open>false\<close> for \<open>ignoreCase\<close>.
\<close>

definition ToLower :: "string \<Rightarrow> string" where
  "ToLower s =
     map (\<lambda>c. if (65::nat) \<le> of_char c \<and> of_char c \<le> (90::nat)
              then char_of (of_char c + (32::nat)) else c) s"

primrec StringInSlice_loop :: "string list \<Rightarrow> bool \<Rightarrow> string \<Rightarrow> bool" where
  "StringInSlice_loop [] ignoreCase v = False"
| "StringInSlice_loop (str # valid) ignoreCase v =
     (if v = str \<or> (ignoreCase \<and> ToLower v = ToLower str) then True
      else StringInSlice_loop valid ignoreCase v)"

definition StringInSlice :: "string list \<Rightarrow> bool \<Rightarrow> gval \<Rightarrow> bool" where
  "StringInSlice valid ignoreCase i =
     (case i of GString v \<Rightarrow> StringInSlice_loop valid ignoreCase v | _ \<Rightarrow> False)"

text \<open>
  The schema entries of \<^verbatim>\<open>frequency\<close> and \<^verbatim>\<open>interval\<close>. A \<^verbatim>\<open>*schema.Schema\<close>
  is kept with its type, its \<^verbatim>\<open>Required\<close> and \<^verbatim>\<open>Optional\<close> flags and its
  \<^verbatim>\<open>ValidateFunc\<close>, which is \<open>None\<close> when the entry declares none.
\<close>

datatype ValueType = TypeString | TypeInt | TypeList | TypeSet

record Schema =
  Type :: ValueType
  Required :: bool
  Optional :: bool
  ValidateFunc :: "(gval \<Rightarrow> bool) option"

text \<open>Lines 44 to 56: the list of frequencies names \<^verbatim>\<open>"Hour"\<close> twice.\<close>

definition frequency_schema :: Schema where
  "frequency_schema =
     \<lparr> Type = TypeString, Required = True, Optional = False,
       ValidateFunc = Some (StringInSlice
         [''Month'', ''Week'', ''Day'', ''Hour'', ''Minute'', ''Hour'', ''Second''] False) \<rparr>"

text \<open>Lines 58 to 61: no \<^verbatim>\<open>ValidateFunc\<close>.\<close>

definition interval_schema :: Schema where
  "interval_schema =
     \<lparr> Type = TypeInt, Required = True, Optional = False, ValidateFunc = None \<rparr>"

text \<open>
  The SDK validates a value of a primitive key by running the entry's
  \<^verbatim>\<open>ValidateFunc\<close> when it has one; a key without one accepts every value of its
  type.
\<close>

definition validatePrimitive :: "Schema \<Rightarrow> gval \<Rightarrow> bool" where
  "validatePrimitive s v = (case ValidateFunc s of None \<Rightarrow> True | Some f \<Rightarrow> f v)"

section \<open>Expanding the configuration\<close>

text \<open>
  \<^verbatim>\<open>expandLogicAppTriggerRecurrenceSchedule\<close> (lines 333 to 372). Each of the three
  \<^verbatim>\<open>for\<close> statements appends the elements of \<^verbatim>\<open>(*schema.Set).List()\<close> to a fresh slice, and the slice
  is stored only when it is not empty.
\<close>

definition append_each :: "'a list \<Rightarrow> 'a list" where
  "append_each xs = foldl (\<lambda>acc x. acc @ [x]) [] xs"

definition expandLogicAppTriggerRecurrenceSchedule ::
    "set_order \<Rightarrow> schedule_attrs option list \<Rightarrow> go_map" where
  "expandLogicAppTriggerRecurrenceSchedule L input =
     (case input of
        [] \<Rightarrow> Map.empty
      | None # _ \<Rightarrow> Map.empty
      | Some attrs # _ \<Rightarrow>
          (let output0 = Map.empty;
               output1 =
                 (case at_these_hours attrs of
                    None \<Rightarrow> output0
                  | Some hoursRaw \<Rightarrow>
                      (let hours = append_each (int_List L hoursRaw)
                       in if length hours > 0
                          then output0(''hours'' \<mapsto> GIntSlicePtr hours) else output0));
               output2 =
                 (case at_these_minutes attrs of
                    None \<Rightarrow> output1
                  | Some minutesRaw \<Rightarrow>
                      (let minutes = append_each (int_List L minutesRaw)
                       in if length minutes > 0
                          then output1(''minutes'' \<mapsto> GIntSlicePtr minutes) else output1));
               output3 =
                 (case on_these_days attrs of
                    None \<Rightarrow> output2
                  | Some daysRaw \<Rightarrow>
                      (let days = append_each (string_List L daysRaw)
                       in if length days > 0
                          then output2(''weekDays'' \<mapsto> GStringSlicePtr days) else output2))
           in output3))"

text \<open>
  The document built by \<^verbatim>\<open>resourceLogicAppTriggerRecurrenceCreateUpdate\<close> (lines 125
  to 144): the value of its local variable \<^verbatim>\<open>trigger\<close> when it is handed to
  \<^verbatim>\<open>resourceLogicAppTriggerUpdate\<close>.
\<close>

definition resourceLogicAppTriggerRecurrenceCreateUpdate_trigger ::
    "set_order \<Rightarrow> ResourceData \<Rightarrow> go_map" where
  "resourceLogicAppTriggerRecurrenceCreateUpdate_trigger L d =
     (let recurrence0 =
            [''frequency'' \<mapsto> GString (Get_string (frequency d)),
             ''interval'' \<mapsto> GInt (Get_int (interval d))];
          recurrence1 =
            (case GetOk_string (start_time d) of
               (v, True) \<Rightarrow>
                 (let r = recurrence0(''startTime'' \<mapsto> GString v)
                  in case GetOk_string (time_zone d) of
                       (v, True) \<Rightarrow> r(''timeZone'' \<mapsto> GString v)
                     | (v, False) \<Rightarrow> r)
             | (v, False) \<Rightarrow> recurrence0);
          recurrence2 =
            (case GetOk_list (schedule d) of
               (v, True) \<Rightarrow>
                 recurrence1(''schedule'' \<mapsto>
                   GMap (expandLogicAppTriggerRecurrenceSchedule L v))
             | (v, False) \<Rightarrow> recurrence1)
      in [''recurrence'' \<mapsto> GMap recurrence2, ''type'' \<mapsto> GString ''Recurrence''])"

section \<open>Flattening the remote document\<close>

text \<open>\<^verbatim>\<open>flattenLogicAppTriggerRecurrenceSchedule\<close> (lines 374 to 388).\<close>

definition flattenLogicAppTriggerRecurrenceSchedule :: "go_map \<Rightarrow> go_map list" where
  "flattenLogicAppTriggerRecurrenceSchedule input =
     (let attrs0 = Map.empty;
          hours = index input ''hours'';
          attrs1 = (if hours \<noteq> GNil then attrs0(''at_these_hours'' \<mapsto> hours) else attrs0);
          minutes = index input ''minutes'';
          attrs2 = (if minutes \<noteq> GNil then attrs1(''at_these_minutes'' \<mapsto> minutes) else attrs1);
          days = index input ''weekDays'';
          attrs3 = (if days \<noteq> GNil then attrs2(''on_these_days'' \<mapsto> days) else attrs2)
      in [attrs3])"

section \<open>The plugin SDK: writing resource data\<close>

text \<open>
  \<^verbatim>\<open>d.Set(key, value)\<close> converts the value to the type the schema gives the key and
  stores it. For the primitive keys the resource passes a value of the key's type, and
  the model updates the slot. For \<^verbatim>\<open>schedule\<close> the resource passes the result of
  \<^verbatim>\<open>flattenLogicAppTriggerRecurrenceSchedule\<close>, whose maps hold whatever the remote
  document held; the SDK decodes every element of a list into the element type of the
  set (a \<^verbatim>\<open>float64\<close> into an \<^verbatim>\<open>int\<close> by conversion), builds the sets, and reads a
  key that the map lacks as the empty set. The flattener produces no key other than
  the three of the nested schema. When a value does not decode, \<^verbatim>\<open>d.Set\<close> returns
  an error, which the resource ignores; the model then leaves the slot as it was, and no
  theorem below depends on that case.
\<close>

definition decodeInt :: "gval \<Rightarrow> int option" where
  "decodeInt v = (case v of GInt n \<Rightarrow> Some n | GFloat64 f \<Rightarrow> Some (go_int f) | _ \<Rightarrow> None)"

definition decodeString :: "gval \<Rightarrow> string option" where
  "decodeString v = (case v of GString s \<Rightarrow> Some s | _ \<Rightarrow> None)"

definition decode_int_set :: "gval option \<Rightarrow> int fset option" where
  "decode_int_set v =
     (case v of
        None \<Rightarrow> Some {||}
      | Some GNil \<Rightarrow> Some {||}
      | Some (GSlice xs) \<Rightarrow> map_option fset_of_list (those (map decodeInt xs))
      | Some (GIntSlicePtr ns) \<Rightarrow> Some (fset_of_list ns)
      | Some _ \<Rightarrow> None)"

definition decode_string_set :: "gval option \<Rightarrow> string fset option" where
  "decode_string_set v =
     (case v of
        None \<Rightarrow> Some {||}
      | Some GNil \<Rightarrow> Some {||}
      | Some (GSlice xs) \<Rightarrow> map_option fset_of_list (those (map decodeString xs))
      | Some (GStringSlicePtr ss) \<Rightarrow> Some (fset_of_list ss)
      | Some _ \<Rightarrow> None)"

definition decode_attrs :: "go_map \<Rightarrow> schedule_attrs option" where
  "decode_attrs m =
     (case (decode_int_set (m ''at_these_hours''),
            decode_int_set (m ''at_these_minutes''),
            decode_string_set (m ''on_these_days'')) of
        (Some hs, Some ms, Some ds) \<Rightarrow>
          Some \<lparr> at_these_hours = Some hs, at_these_minutes = Some ms,
                 on_these_days = Some ds \<rparr>
      | _ \<Rightarrow> None)"

definition Set_schedule :: "go_map list \<Rightarrow> ResourceData \<Rightarrow> ResourceData" where
  "Set_schedule v d =
     (case those (map decode_attrs v) of
        None \<Rightarrow> d
      | Some items \<Rightarrow> d\<lparr>schedule := map Some items\<rparr>)"

section \<open>Read\<close>

text \<open>
  The collaborators of Read are functions of the provider that the file calls and does
  not define; they are parameters of the model.
  \<^item> \<^verbatim>\<open>azure.ParseAzureResourceID\<close> maps the resource id to an error or to a parsed
    id, of which Read uses the resource group and the path segments.
  \<^item> \<^verbatim>\<open>retrieveLogicAppTrigger\<close> returns the trigger document (or nil), the
    workflow that holds it, and an error (or nil).
\<close>

record ResourceID =
  ResourceGroup :: string
  Path :: "string \<Rightarrow> string option"

text \<open>Indexing a \<^verbatim>\<open>map[string]string\<close>: the empty string when the key is missing.\<close>

definition path_index :: "(string \<Rightarrow> string option) \<Rightarrow> string \<Rightarrow> string" where
  "path_index m k = (case m k of None \<Rightarrow> [] | Some v \<Rightarrow> v)"

record Workflow =
  ID :: "string option"

type_synonym parse_id = "string \<Rightarrow> error + ResourceID"

type_synonym retrieve_trigger =
  "ResourceData \<Rightarrow> string \<Rightarrow> string \<Rightarrow> string
     \<Rightarrow> go_map option \<times> Workflow option \<times> error option"

text \<open>
  Lines 191 to 209 of \<^verbatim>\<open>resourceLogicAppTriggerRecurrenceRead\<close>: the keys of the
  \<^verbatim>\<open>recurrence\<close> object are copied into the resource data, each only when its value
  is not nil, each through a type assertion that panics on a value of another type.
\<close>

definition Read_frequency :: "go_map \<Rightarrow> ResourceData \<Rightarrow> go_panic + ResourceData" where
  "Read_frequency recurrence d =
     (let frequency = index recurrence ''frequency''
      in if frequency \<noteq> GNil
         then and_then (assert_string frequency) (\<lambda>s. Inr (d\<lparr>frequency := Some s\<rparr>))
         else Inr d)"

definition Read_interval :: "go_map \<Rightarrow> ResourceData \<Rightarrow> go_panic + ResourceData" where
  "Read_interval recurrence d =
     (let interval = index recurrence ''interval''
      in if interval \<noteq> GNil
         then and_then (assert_float64 interval) (\<lambda>f. Inr (d\<lparr>interval := Some (go_int f)\<rparr>))
         else Inr d)"

definition Read_start_time :: "go_map \<Rightarrow> ResourceData \<Rightarrow> go_panic + ResourceData" where
  "Read_start_time recurrence d =
     (let startTime = index recurrence ''startTime''
      in if startTime \<noteq> GNil
         then and_then (assert_string startTime) (\<lambda>s. Inr (d\<lparr>start_time := Some s\<rparr>))
         else Inr d)"

definition Read_time_zone :: "go_map \<Rightarrow> ResourceData \<Rightarrow> go_panic + ResourceData" where
  "Read_time_zone recurrence d =
     (let timeZone = index recurrence ''timeZone''
      in if timeZone \<noteq> GNil
         then and_then (assert_string timeZone) (\<lambda>s. Inr (d\<lparr>time_zone := Some s\<rparr>))
         else Inr d)"

definition Read_schedule :: "go_map \<Rightarrow> ResourceData \<Rightarrow> go_panic + ResourceData" where
  "Read_schedule recurrence d =
     (let schedule = index recurrence ''schedule''
      in if schedule \<noteq> GNil
         then and_then (assert_map schedule)
                (\<lambda>m. Inr (Set_schedule (flattenLogicAppTriggerRecurrenceSchedule m) d))
         else Inr d)"

definition Read_recurrence :: "go_map \<Rightarrow> ResourceData \<Rightarrow> go_panic + ResourceData" where
  "Read_recurrence recurrence d =
     and_then (Read_frequency recurrence d) (\<lambda>d.
     and_then (Read_interval recurrence d) (\<lambda>d.
     and_then (Read_start_time recurrence d) (\<lambda>d.
     and_then (Read_time_zone recurrence d) (\<lambda>d.
     Read_schedule recurrence d))))"

text \<open>
  \<^verbatim>\<open>resourceLogicAppTriggerRecurrenceRead\<close> (lines 155 to 212). The result is a panic,
  or the resource data as the function leaves it together with the error it returns
  (\<open>None\<close> for \<^verbatim>\<open>nil\<close>). The debug log line of the not-found branch has no effect
  on either.
\<close>

definition recurrence_nil_format :: string where
  "recurrence_nil_format =
     ''Error `recurrence` was nil for HTTP Trigger %q (Logic App %q / Resource Group %q)''"

definition recurrence_parse_format :: string where
  "recurrence_parse_format =
     ''Error parsing `recurrence` for HTTP Trigger %q (Logic App %q / Resource Group %q)''"

definition resourceLogicAppTriggerRecurrenceRead ::
    "parse_id \<Rightarrow> retrieve_trigger \<Rightarrow> ResourceData
       \<Rightarrow> go_panic + (ResourceData \<times> error option)" where
  "resourceLogicAppTriggerRecurrenceRead ParseAzureResourceID retrieveLogicAppTrigger d =
     (case ParseAzureResourceID (resource_id d) of
        Inl err \<Rightarrow> Inr (d, Some err)
      | Inr rid \<Rightarrow>
          (let resourceGroup = ResourceGroup rid;
               logicAppName = path_index (Path rid) ''workflows'';
               name = path_index (Path rid) ''triggers''
           in case retrieveLogicAppTrigger d resourceGroup logicAppName name of
                (t, app, Some err) \<Rightarrow> Inr (d, Some err)
              | (None, app, None) \<Rightarrow> Inr (d\<lparr>resource_id := []\<rparr>, None)
              | (Some trigger, app, None) \<Rightarrow>
                  (let d1 = d\<lparr>name := Some name\<rparr>
                   in case app of
                        None \<Rightarrow> Inl NilDereferencePanic
                      | Some workflow \<Rightarrow>
                          (let d2 = d1\<lparr>logic_app_id := ID workflow\<rparr>;
                               v = index trigger ''recurrence''
                           in if v = GNil
                              then Inr (d2, Some (Errorf recurrence_nil_format
                                                    [name, logicAppName, resourceGroup]))
                              else case v of
                                     GMap recurrence \<Rightarrow>
                                       and_then (Read_recurrence recurrence d2)
                                         (\<lambda>d3. Inr (d3, None))
                                   | _ \<Rightarrow>
                                       Inr (d2, Some (Errorf recurrence_parse_format
                                                        [name, logicAppName, resourceGroup]))))))"

section \<open>Create and update\<close>

text \<open>
  \<^verbatim>\<open>resourceLogicAppTriggerRecurrenceCreateUpdate\<close> (lines 124 to 153).
  \<^verbatim>\<open>resourceLogicAppTriggerUpdate\<close> is a function of the provider that the file calls
  and does not define, hence a parameter: it receives the resource data, the workflow
  id, the trigger name, the document and the resource name, and returns the resource
  data as it leaves them together with an error (or nil).
\<close>

type_synonym update_trigger =
  "ResourceData \<Rightarrow> string \<Rightarrow> string \<Rightarrow> go_map \<Rightarrow> string \<Rightarrow> ResourceData \<times> error option"

definition resourceLogicAppTriggerRecurrenceCreateUpdate ::
    "set_order \<Rightarrow> parse_id \<Rightarrow> retrieve_trigger \<Rightarrow> update_trigger \<Rightarrow> ResourceData
       \<Rightarrow> go_panic + (ResourceData \<times> error option)" where
  "resourceLogicAppTriggerRecurrenceCreateUpdate L ParseAzureResourceID retrieveLogicAppTrigger
       resourceLogicAppTriggerUpdate d =
     (let trigger = resourceLogicAppTriggerRecurrenceCreateUpdate_trigger L d;
          logicAppId = Get_string (logic_app_id d);
          name = Get_string (name d)
      in case resourceLogicAppTriggerUpdate d logicAppId name trigger
                ''azurerm_logic_app_trigger_recurrence'' of
           (d', Some err) \<Rightarrow> Inr (d', Some err)
         | (d', None) \<Rightarrow>
             resourceLogicAppTriggerRecurrenceRead ParseAzureResourceID
               retrieveLogicAppTrigger d')"

section \<open>The document on the wire\<close>

text \<open>
  Between the expander and the flattener lies the remote service: the document is
  written as JSON and read back into \<^verbatim>\<open>map[string]interface{}\<close>, where every JSON
  number is a \<^verbatim>\<open>float64\<close> and every JSON array a \<^verbatim>\<open>[]interface{}\<close>.

  \<open>float64_of_int\<close> is the \<^verbatim>\<open>float64\<close> nearest to an integer (ties to the even
  significand): with \<open>e\<close> the number of bits of the magnitude beyond the 53 of the
  significand, the low \<open>e\<close> bits are rounded away. Integers of magnitude up to
  \<open>2 ^ 53\<close> are exact.

  \<open>json_roundtrip\<close> is the value read back from the JSON text of a value. Strings are
  taken to hold valid UTF-8, which JSON carries unchanged.
\<close>

definition float64_of_int :: "int \<Rightarrow> real" where
  "float64_of_int n =
     (let a = \<bar>n\<bar>;
          e = nat (bitlen a - 53);
          q = a div 2 ^ e;
          r = a mod 2 ^ e;
          q' = (if 2 ^ e < 2 * r \<or> (2 * r = 2 ^ e \<and> odd q) then q + 1 else q)
      in of_int (sgn n * q' * 2 ^ e))"

primrec json_roundtrip :: "gval \<Rightarrow> gval" where
  "json_roundtrip GNil = GNil"
| "json_roundtrip (GString s) = GString s"
| "json_roundtrip (GInt n) = GFloat64 (float64_of_int n)"
| "json_roundtrip (GFloat64 f) = GFloat64 f"
| "json_roundtrip (GSlice xs) = GSlice (map json_roundtrip xs)"
| "json_roundtrip (GIntSlicePtr ns) = GSlice (map (\<lambda>n. GFloat64 (float64_of_int n)) ns)"
| "json_roundtrip (GStringSlicePtr ss) = GSlice (map GString ss)"
| "json_roundtrip (GMap m) = GMap (\<lambda>k. map_option json_roundtrip (m k))"

definition wire :: "go_map \<Rightarrow> go_map" where
  "wire m = (\<lambda>k. map_option json_roundtrip (m k))"

section \<open>Valid configurations\<close>

text \<open>
  The rest of the schema (lines 63 to 119), as far as it decides which configurations
  are accepted. \<^verbatim>\<open>validation.IntBetween(min, max)\<close> accepts the integers of the closed
  range. \<^verbatim>\<open>validateLogicAppTriggerRecurrenceTimeZone\<close> (lines 232 to 331) accepts the
  strings of its list.
\<close>

definition IntBetween :: "int \<Rightarrow> int \<Rightarrow> gval \<Rightarrow> bool" where
  "IntBetween lo hi i = (case i of GInt v \<Rightarrow> lo \<le> v \<and> v \<le> hi | _ \<Rightarrow> False)"

definition weekDays :: "string list" where
  "weekDays =
     [''Monday'', ''Tuesday'', ''Wednesday'', ''Thursday'', ''Friday'', ''Saturday'', ''Sunday'']"

definition timeZones :: "string list" where
  "timeZones =
      [''Dateline Standard Time'', ''Samoa Standard Time'', ''Hawaiian Standard Time'',
       ''Alaskan Standard Time'', ''Pacific Standard Time'', ''Mountain Standard Time'',
       ''Mexico Standard Time'', ''US Mountain Standard Time'', ''Central Standard Time'',
       ''Canada Central Standard Time'', ''Mexico Standard Time'',
       ''Central America Standard Time'', ''Eastern Standard Time'',
       ''US Eastern Standard Time'', ''SA Pacific Standard Time'',
       ''Atlantic Standard Time'', ''SA Western Standard Time'',
       ''Pacific SA Standard Time'', ''Newfoundland and Labrador Standard Time'',
       ''E South America Standard Time'', ''SA Eastern Standard Time'',
       ''Greenland Standard Time'', ''Mid-Atlantic Standard Time'',
       ''Azores Standard Time'', ''Cape Verde Standard Time'', ''GMT Standard Time'',
       ''Greenwich Standard Time'', ''Central Europe Standard Time'',
       ''Central European Standard Time'', ''Romance Standard Time'',
       ''W Europe Standard Time'', ''W Central Africa Standard Time'',
       ''E Europe Standard Time'', ''Egypt Standard Time'', ''FLE Standard Time'',
       ''GTB Standard Time'', ''Israel Standard Time'', ''South Africa Standard Time'',
       ''Russian Standard Time'', ''Arab Standard Time'', ''E Africa Standard Time'',
       ''Arabic Standard Time'', ''Iran Standard Time'', ''Arabian Standard Time'',
       ''Caucasus Standard Time'',
       ''Transitional Islamic State of Afghanistan Standard Time'',
       ''Ekaterinburg Standard Time'', ''West Asia Standard Time'',
       ''India Standard Time'', ''Nepal Standard Time'', ''Central Asia Standard Time'',
       ''Sri Lanka Standard Time'', ''N Central Asia Standard Time'',
       ''Myanmar Standard Time'', ''SE Asia Standard Time'', ''North Asia Standard Time'',
       ''China Standard Time'', ''Singapore Standard Time'', ''Taipei Standard Time'',
       ''W Australia Standard Time'', ''North Asia East Standard Time'',
       ''Korea Standard Time'', ''Tokyo Standard Time'', ''Yakutsk Standard Time'',
       ''AUS Central Standard Time'', ''Cen Australia Standard Time'',
       ''AUS Eastern Standard Time'', ''E Australia Standard Time'',
       ''Tasmania Standard Time'', ''Vladivostok Standard Time'',
       ''West Pacific Standard Time'', ''Central Pacific Standard Time'',
       ''Fiji Islands Standard Time'', ''New Zealand Standard Time'',
       ''Tonga Standard Time'', ''Azerbaijan Standard Time'',
       ''Middle East Standard Time'', ''Jordan Standard Time'',
       ''Central Standard Time (Mexico)'', ''Mountain Standard Time (Mexico)'',
       ''Pacific Standard Time (Mexico)'', ''Namibia Standard Time'',
       ''Georgian Standard Time'', ''Central Brazilian Standard Time'',
       ''Montevideo Standard Time'', ''Armenian Standard Time'',
       ''Venezuela Standard Time'', ''Argentina Standard Time'', ''Morocco Standard Time'',
       ''Pakistan Standard Time'', ''Mauritius Standard Time'', ''UTC'',
       ''Paraguay Standard Time'', ''Kamchatka Standard Time'']"

definition validateLogicAppTriggerRecurrenceTimeZone :: "gval \<Rightarrow> bool" where
  "validateLogicAppTriggerRecurrenceTimeZone = StringInSlice timeZones False"

text \<open>\<^verbatim>\<open>d.Get\<close> of a set: the empty set when the key has none.\<close>

definition Get_set :: "'a fset option \<Rightarrow> 'a fset" where
  "Get_set slot = (case slot of None \<Rightarrow> {||} | Some s \<Rightarrow> s)"

text \<open>
  A schedule block is accepted when every hour is between 0 and 23, every minute
  between 0 and 59, every day one of the seven names, and (\<^verbatim>\<open>AtLeastOneOf\<close>) at least
  one of the three sets has an element.
\<close>

definition valid_schedule_attrs :: "schedule_attrs \<Rightarrow> bool" where
  "valid_schedule_attrs a =
     ((\<forall>h. h |\<in>| Get_set (at_these_hours a) \<longrightarrow> IntBetween 0 23 (GInt h)) \<and>
      (\<forall>m. m |\<in>| Get_set (at_these_minutes a) \<longrightarrow> IntBetween 0 59 (GInt m)) \<and>
      (\<forall>day. day |\<in>| Get_set (on_these_days a) \<longrightarrow> StringInSlice weekDays False (GString day)) \<and>
      (Get_set (at_these_hours a) \<noteq> {||} \<or> Get_set (at_these_minutes a) \<noteq> {||} \<or>
       Get_set (on_these_days a) \<noteq> {||}))"

text \<open>
  A configuration is accepted when \<^verbatim>\<open>name\<close>, \<^verbatim>\<open>logic_app_id\<close>,
  \<^verbatim>\<open>frequency\<close> and \<^verbatim>\<open>interval\<close> are given (\<^verbatim>\<open>Required\<close>) and every given
  value passes the validation of its key, with at most one schedule block
  (\<^verbatim>\<open>MaxItems: 1\<close>). Two validation functions are not part of the file:
  of \<^verbatim>\<open>validation.IsRFC3339Time\<close> the predicate keeps only that it refuses the empty
  string, and of \<^verbatim>\<open>azure.ValidateResourceID\<close> nothing. A schedule block, when
  there is one, is a map with an element in at least one of its sets: a block that the
  SDK hands over as a nil item is not among the valid configurations.
\<close>

definition valid_TriggerConfig :: "ResourceData \<Rightarrow> bool" where
  "valid_TriggerConfig C =
     (name C \<noteq> None \<and>
      logic_app_id C \<noteq> None \<and>
      (case frequency C of
         None \<Rightarrow> False
       | Some f \<Rightarrow> validatePrimitive frequency_schema (GString f)) \<and>
      (case interval C of
         None \<Rightarrow> False
       | Some n \<Rightarrow> validatePrimitive interval_schema (GInt n)) \<and>
      (case start_time C of None \<Rightarrow> True | Some s \<Rightarrow> s \<noteq> []) \<and>
      (case time_zone C of
         None \<Rightarrow> True
       | Some z \<Rightarrow> validateLogicAppTriggerRecurrenceTimeZone (GString z)) \<and>
      (case schedule C of
         [] \<Rightarrow> True
       | [Some a] \<Rightarrow> valid_schedule_attrs a
       | _ \<Rightarrow> False))"

text \<open>
  The field values of a configuration, as \<^verbatim>\<open>d.Get\<close> returns them for the five keys
  of the trigger: sets are compared as sets, and a key without a value reads as the
  zero value.
\<close>

definition schedule_sets :: "schedule_attrs \<Rightarrow> int fset \<times> int fset \<times> string fset" where
  "schedule_sets a =
     (Get_set (at_these_hours a), Get_set (at_these_minutes a), Get_set (on_these_days a))"

definition field_values ::
    "ResourceData \<Rightarrow> string \<times> int \<times> string \<times> string \<times> (int fset \<times> int fset \<times> string fset) option list" where
  "field_values d =
     (Get_string (frequency d), Get_int (interval d), Get_string (start_time d),
      Get_string (time_zone d), map (map_option schedule_sets) (schedule d))"

section \<open>Well-formed remote documents\<close>

text \<open>
  The wire shape of the spec, for a document as it is read back from JSON:
  \<^verbatim>\<open>{"type": "Recurrence", "recurrence": {"frequency": string, "interval": number,
  "startTime"?: string, "timeZone"?: string, "schedule"?: {"hours"?: [int],
  "minutes"?: [int], "weekDays"?: [string]}}}\<close>, with no other key and no
  \<^verbatim>\<open>null\<close>. A number stands for an integer that a \<^verbatim>\<open>float64\<close> holds exactly
  (magnitude at most \<open>2 ^ 53\<close>); a start time and a time zone are not the empty string;
  a time zone comes only with a start time.
\<close>

definition whole_number :: "gval \<Rightarrow> bool" where
  "whole_number v =
     (case v of
        GFloat64 f \<Rightarrow> f = of_int (go_int f) \<and> \<bar>go_int f\<bar> \<le> 2 ^ 53
      | _ \<Rightarrow> False)"

definition is_string :: "gval \<Rightarrow> bool" where
  "is_string v = (case v of GString s \<Rightarrow> True | _ \<Rightarrow> False)"

definition nonempty_string :: "gval \<Rightarrow> bool" where
  "nonempty_string v = (case v of GString s \<Rightarrow> s \<noteq> [] | _ \<Rightarrow> False)"

definition number_array :: "gval \<Rightarrow> bool" where
  "number_array v = (case v of GSlice xs \<Rightarrow> list_all whole_number xs | _ \<Rightarrow> False)"

definition string_array :: "gval \<Rightarrow> bool" where
  "string_array v = (case v of GSlice xs \<Rightarrow> list_all is_string xs | _ \<Rightarrow> False)"

definition well_formed_schedule :: "gval \<Rightarrow> bool" where
  "well_formed_schedule v =
     (case v of
        GMap s \<Rightarrow>
          dom s \<subseteq> {''hours'', ''minutes'', ''weekDays''} \<and>
          pred_option number_array (s ''hours'') \<and>
          pred_option number_array (s ''minutes'') \<and>
          pred_option string_array (s ''weekDays'')
      | _ \<Rightarrow> False)"

definition well_formed_recurrence :: "gval \<Rightarrow> bool" where
  "well_formed_recurrence v =
     (case v of
        GMap r \<Rightarrow>
          dom r \<subseteq> {''frequency'', ''interval'', ''startTime'', ''timeZone'', ''schedule''} \<and>
          (case r ''frequency'' of None \<Rightarrow> False | Some f \<Rightarrow> is_string f) \<and>
          (case r ''interval'' of None \<Rightarrow> False | Some i \<Rightarrow> whole_number i) \<and>
          pred_option nonempty_string (r ''startTime'') \<and>
          pred_option nonempty_string (r ''timeZone'') \<and>
          (r ''startTime'' = None \<longrightarrow> r ''timeZone'' = None) \<and>
          pred_option well_formed_schedule (r ''schedule'')
      | _ \<Rightarrow> False)"

definition well_formed_document :: "go_map \<Rightarrow> bool" where
  "well_formed_document D =
     (dom D = {''type'', ''recurrence''} \<and>
      D ''type'' = Some (GString ''Recurrence'') \<and>
      (case D ''recurrence'' of None \<Rightarrow> False | Some v \<Rightarrow> well_formed_recurrence v))"

text \<open>No array of the schedule object is empty.\<close>

definition nonempty_array :: "gval \<Rightarrow> bool" where
  "nonempty_array v = (case v of GSlice xs \<Rightarrow> xs \<noteq> [] | _ \<Rightarrow> True)"

definition schedule_arrays_nonempty :: "go_map \<Rightarrow> bool" where
  "schedule_arrays_nonempty D =
     (case D ''recurrence'' of
        Some (GMap r) \<Rightarrow>
          (case r ''schedule'' of
             Some (GMap s) \<Rightarrow>
               pred_option nonempty_array (s ''hours'') \<and>
               pred_option nonempty_array (s ''minutes'') \<and>
               pred_option nonempty_array (s ''weekDays'')
           | _ \<Rightarrow> True)
      | _ \<Rightarrow> True)"

text \<open>
  Two documents are the same up to the order and the multiplicity of the elements of
  the arrays of the schedule object: the same keys at every level, equal values, and
  arrays with the same elements.
\<close>

definition same_elements :: "gval \<Rightarrow> gval \<Rightarrow> bool" where
  "same_elements a b =
     (case (a, b) of (GSlice xs, GSlice ys) \<Rightarrow> set xs = set ys | _ \<Rightarrow> a = b)"

definition schedule_equiv :: "gval \<Rightarrow> gval \<Rightarrow> bool" where
  "schedule_equiv a b =
     (case (a, b) of
        (GMap s, GMap s') \<Rightarrow> (\<forall>k. rel_option same_elements (s k) (s' k))
      | _ \<Rightarrow> a = b)"

definition recurrence_equiv :: "gval \<Rightarrow> gval \<Rightarrow> bool" where
  "recurrence_equiv a b =
     (case (a, b) of
        (GMap r, GMap r') \<Rightarrow>
          (\<forall>k. if k = ''schedule'' then rel_option schedule_equiv (r k) (r' k)
               else r k = r' k)
      | _ \<Rightarrow> a = b)"

definition document_equiv :: "go_map \<Rightarrow> go_map \<Rightarrow> bool" where
  "document_equiv T D =
     (\<forall>k. if k = ''recurrence'' then rel_option recurrence_equiv (T k) (D k)
          else T k = D k)"

section \<open>Example values\<close>

text \<open>
  The ids of a workflow and of a trigger in it, and a configuration that names a time
  zone and no start time:
  the schema accepts it (\<^verbatim>\<open>"Day"\<close> is a frequency, \<^verbatim>\<open>"UTC"\<close> is in the list of
  time zones, and no entry ties \<^verbatim>\<open>time_zone\<close> to \<^verbatim>\<open>start_time\<close>).
\<close>

definition workflow1_id :: string where
  "workflow1_id =
     ''/subscriptions/00000000-0000-0000-0000-000000000000/resourceGroups/group1'' @
     ''/providers/Microsoft.Logic/workflows/workflow1''"

definition trigger1_id :: string where
  "trigger1_id = workflow1_id @ ''/triggers/every-day''"

definition config_time_zone_only :: ResourceData where
  "config_time_zone_only =
     \<lparr> resource_id = [], name = Some ''every-day'', logic_app_id = Some workflow1_id,
       frequency = Some ''Day'', interval = Some 1, start_time = None,
       time_zone = Some ''UTC'', schedule = [] \<rparr>"

text \<open>
  Collaborators for the examples: a parser that returns the resource group
  \<^verbatim>\<open>group1\<close>, the workflow \<^verbatim>\<open>workflow1\<close> and the trigger \<^verbatim>\<open>every-day\<close>, and a
  retrieval that returns the given document (with its workflow) and no error.
\<close>

definition example_id :: ResourceID where
  "example_id =
     \<lparr> ResourceGroup = ''group1'',
       Path = [''workflows'' \<mapsto> ''workflow1'', ''triggers'' \<mapsto> ''every-day''] \<rparr>"

definition example_parse :: parse_id where
  "example_parse s = Inr example_id"

definition example_workflow :: Workflow where
  "example_workflow = \<lparr> ID = Some workflow1_id \<rparr>"

definition retrieve_returning :: "go_map option \<Rightarrow> retrieve_trigger" where
  "retrieve_returning t d resourceGroup logicAppName triggerName =
     (t, (case t of None \<Rightarrow> None | Some _ \<Rightarrow> Some example_workflow), None)"

text \<open>Resource data that hold an id and nothing else, as after an import.\<close>

definition new_ResourceData :: "string \<Rightarrow> ResourceData" where
  "new_ResourceData rid =
     \<lparr> resource_id = rid, name = None, logic_app_id = None, frequency = None,
       interval = None, start_time = None, time_zone = None, schedule = [] \<rparr>"

text \<open>Two malformed remote documents, and the configuration of the spec's scenario B.\<close>

definition trigger_without_recurrence :: go_map where
  "trigger_without_recurrence = [''type'' \<mapsto> GString ''Recurrence'']"

definition trigger_recurrence_string :: go_map where
  "trigger_recurrence_string =
     [''type'' \<mapsto> GString ''Recurrence'', ''recurrence'' \<mapsto> GString ''Day'']"

definition config_weekly :: ResourceData where
  "config_weekly =
     \<lparr> resource_id = [], name = Some ''every-week'', logic_app_id = Some workflow1_id,
       frequency = Some ''Week'', interval = Some 2,
       start_time = Some ''2020-01-01T00:00:00Z'', time_zone = Some ''UTC'',
       schedule = [Some \<lparr> at_these_hours = Some {||}, at_these_minutes = Some {||},
                          on_these_days = Some {|''Monday'', ''Friday''|} \<rparr>] \<rparr>"

text \<open>
  A configuration whose schedule block is there and holds no item: the list that
  \<^verbatim>\<open>d.Get("schedule")\<close> returns has the one element \<^verbatim>\<open>nil\<close>.
\<close>

definition config_nil_block :: ResourceData where
  "config_nil_block =
     \<lparr> resource_id = [], name = Some ''every-day'', logic_app_id = Some workflow1_id,
       frequency = Some ''Day'', interval = Some 1, start_time = None,
       time_zone = None, schedule = [None] \<rparr>"

text \<open>
  A remote document whose schedule lists no hour: \<^verbatim>\<open>{"type": "Recurrence",
  "recurrence": {"frequency": "Week", "interval": 1, "schedule": {"hours": []}}}\<close>.
\<close>

definition recurrence_empty_hours :: go_map where
  "recurrence_empty_hours =
     [''frequency'' \<mapsto> GString ''Week'', ''interval'' \<mapsto> GFloat64 1,
      ''schedule'' \<mapsto> GMap [''hours'' \<mapsto> GSlice []]]"

definition document_empty_hours :: go_map where
  "document_empty_hours =
     [''type'' \<mapsto> GString ''Recurrence'', ''recurrence'' \<mapsto> GMap recurrence_empty_hours]"

text \<open>
  The remote document of the spec's scenario B: \<^verbatim>\<open>{"type": "Recurrence",
  "recurrence": {"frequency": "Week", "interval": 2, "startTime":
  "2020-01-01T00:00:00Z", "timeZone": "UTC", "schedule": {"weekDays": ["Monday",
  "Friday"]}}}\<close>.
\<close>

definition recurrence_weekly :: go_map where
  "recurrence_weekly =
     [''frequency'' \<mapsto> GString ''Week'', ''interval'' \<mapsto> GFloat64 2,
      ''startTime'' \<mapsto> GString ''2020-01-01T00:00:00Z'', ''timeZone'' \<mapsto> GString ''UTC'',
      ''schedule'' \<mapsto> GMap [''weekDays'' \<mapsto> GSlice [GString ''Monday'', GString ''Friday'']]]"

definition document_weekly :: go_map where
  "document_weekly =
     [''type'' \<mapsto> GString ''Recurrence'', ''recurrence'' \<mapsto> GMap recurrence_weekly]"

section \<open>Properties\<close>

subsection \<open>Basic facts\<close>

lemma append_each_id: "append_each xs = xs"
proof -
  have "foldl (\<lambda>acc x. acc @ [x]) ys xs = ys @ xs" for ys
    by (induction xs arbitrary: ys) simp_all
  then show ?thesis by (simp add: append_each_def)
qed

lemma Get_simps:
  "Get_string (Some s) = s" "Get_string None = []" "Get_int (Some n) = n" "Get_int None = 0"
  by (simp_all add: Get_string_def Get_int_def)

lemma GetOk_simps:
  "GetOk_string None = ([], False)" "GetOk_string (Some s) = (s, s \<noteq> [])"
  by (simp_all add: GetOk_string_def)

lemma go_int_of_int: "go_int (of_int n) = n"
  by (simp add: go_int_def)

lemma float64_of_int_exact:
  assumes "\<bar>n\<bar> \<le> 2 ^ 53"
  shows "float64_of_int n = of_int n"
proof (cases "\<bar>n\<bar> = 2 ^ 53")
  case True
  have "bitlen ((2::int) ^ 53) = 54"
    using bitlen_twopow_add_eq [of 0 53] by simp
  then have e: "nat (bitlen \<bar>n\<bar> - 53) = 1" using True by simp
  have "sgn n * ((2::int) ^ 53 div 2) * 2 = n"
    using True by (cases "0 \<le> n") (simp_all add: sgn_if)
  then show ?thesis
    using True unfolding float64_of_int_def Let_def e by simp
next
  case False
  then have "\<bar>n\<bar> < 2 ^ 53" using assms by simp
  then have "bitlen \<bar>n\<bar> \<le> 53" by (simp add: bitlen_le_iff_power)
  then have e: "nat (bitlen \<bar>n\<bar> - 53) = 0" by simp
  have "sgn n * \<bar>n\<bar> = n" by (simp add: mult_sgn_abs)
  then show ?thesis
    unfolding float64_of_int_def Let_def e by (simp del: of_int_mult of_int_abs)
qed

lemma fset_of_list_empty_iff: "fset_of_list xs = {||} \<longleftrightarrow> xs = []"
  by (cases xs) auto

lemma int_List_empty:
  assumes "set_order_ok L"
  shows "int_List L s = [] \<longleftrightarrow> s = {||}"
proof -
  have "fset_of_list (int_List L s) = s" using assms by (simp add: set_order_ok_def)
  then show ?thesis using fset_of_list_empty_iff [of "int_List L s"] by auto
qed

lemma string_List_empty:
  assumes "set_order_ok L"
  shows "string_List L s = [] \<longleftrightarrow> s = {||}"
proof -
  have "fset_of_list (string_List L s) = s" using assms by (simp add: set_order_ok_def)
  then show ?thesis using fset_of_list_empty_iff [of "string_List L s"] by auto
qed

lemma distinct_sorted_list_of_fset: "distinct (sorted_list_of_fset s)"
  by (simp add: sorted_list_of_fset.rep_eq)

lemma set_order_ok_sorted: "set_order_ok sorted_order"
  by (simp add: set_order_ok_def sorted_order_def distinct_sorted_list_of_fset)

lemma three_keys_cases:
  assumes "k = a \<Longrightarrow> P" "k = b \<Longrightarrow> P" "k = c \<Longrightarrow> P" "k \<notin> {a, b, c} \<Longrightarrow> P"
  shows P
  using assms by blast

lemma five_keys_cases:
  assumes "k = a \<Longrightarrow> P" "k = b \<Longrightarrow> P" "k = c \<Longrightarrow> P" "k = d \<Longrightarrow> P" "k = e \<Longrightarrow> P"
    "k \<notin> {a, b, c, d, e} \<Longrightarrow> P"
  shows P
  using assms by blast

lemma outside_dom: "dom m \<subseteq> K \<Longrightarrow> k \<notin> K \<Longrightarrow> m k = None"
  by blast

subsection \<open>The document built for create and update\<close>

lemma expand_schedule_keys:
  assumes "set_order_ok L"
  shows "expandLogicAppTriggerRecurrenceSchedule L (Some attrs # rest) ''hours'' =
           (case at_these_hours attrs of None \<Rightarrow> None
            | Some hs \<Rightarrow> if hs = {||} then None else Some (GIntSlicePtr (int_List L hs)))"
    and "expandLogicAppTriggerRecurrenceSchedule L (Some attrs # rest) ''minutes'' =
           (case at_these_minutes attrs of None \<Rightarrow> None
            | Some ms \<Rightarrow> if ms = {||} then None else Some (GIntSlicePtr (int_List L ms)))"
    and "expandLogicAppTriggerRecurrenceSchedule L (Some attrs # rest) ''weekDays'' =
           (case on_these_days attrs of None \<Rightarrow> None
            | Some ds \<Rightarrow> if ds = {||} then None else Some (GStringSlicePtr (string_List L ds)))"
    and "dom (expandLogicAppTriggerRecurrenceSchedule L (Some attrs # rest))
           \<subseteq> {''hours'', ''minutes'', ''weekDays''}"
  using assms
  by (auto simp add: expandLogicAppTriggerRecurrenceSchedule_def Let_def append_each_id
      int_List_empty string_List_empty split: option.splits if_splits)

lemma trigger_recurrence_keys:
  "\<exists>r. resourceLogicAppTriggerRecurrenceCreateUpdate_trigger L d ''recurrence''
         = Some (GMap r) \<and>
       r ''frequency'' = Some (GString (Get_string (frequency d))) \<and>
       r ''interval'' = Some (GInt (Get_int (interval d))) \<and>
       r ''startTime'' =
         (if snd (GetOk_string (start_time d))
          then Some (GString (fst (GetOk_string (start_time d)))) else None) \<and>
       r ''timeZone'' =
         (if snd (GetOk_string (start_time d)) \<and> snd (GetOk_string (time_zone d))
          then Some (GString (fst (GetOk_string (time_zone d)))) else None) \<and>
       r ''schedule'' =
         (if schedule d \<noteq> []
          then Some (GMap (expandLogicAppTriggerRecurrenceSchedule L (schedule d)))
          else None)"
proof -
  obtain v b where st: "GetOk_string (start_time d) = (v, b)"
    by (cases "GetOk_string (start_time d)")
  obtain w c where tz: "GetOk_string (time_zone d) = (w, c)"
    by (cases "GetOk_string (time_zone d)")
  show ?thesis
    using st tz
    by (cases b; cases c)
       (simp_all add: resourceLogicAppTriggerRecurrenceCreateUpdate_trigger_def Let_def
         GetOk_list_def)
qed

lemma trigger_recurrence_all_keys:
  "resourceLogicAppTriggerRecurrenceCreateUpdate_trigger L d ''recurrence''
         = Some (GMap (\<lambda>k.
         if k = ''frequency'' then Some (GString (Get_string (frequency d)))
         else if k = ''interval'' then Some (GInt (Get_int (interval d)))
         else if k = ''startTime'' then
           (if snd (GetOk_string (start_time d))
            then Some (GString (fst (GetOk_string (start_time d)))) else None)
         else if k = ''timeZone'' then
           (if snd (GetOk_string (start_time d)) \<and> snd (GetOk_string (time_zone d))
            then Some (GString (fst (GetOk_string (time_zone d)))) else None)
         else if k = ''schedule'' then
           (if schedule d \<noteq> []
            then Some (GMap (expandLogicAppTriggerRecurrenceSchedule L (schedule d)))
            else None)
         else None))"
proof -
  obtain v b where st: "GetOk_string (start_time d) = (v, b)"
    by (cases "GetOk_string (start_time d)")
  obtain w c where tz: "GetOk_string (time_zone d) = (w, c)"
    by (cases "GetOk_string (time_zone d)")
  show ?thesis
    using st tz
    by (cases b; cases c)
       (auto simp add: resourceLogicAppTriggerRecurrenceCreateUpdate_trigger_def Let_def
         GetOk_list_def fun_eq_iff)
qed

text \<open>
  C1. When \<^verbatim>\<open>start_time\<close> is not set (\<^verbatim>\<open>d.GetOk("start_time")\<close> reports false), the
  document built for create and update has no \<^verbatim>\<open>timeZone\<close> key under
  \<^verbatim>\<open>recurrence\<close>, whatever \<^verbatim>\<open>time_zone\<close> holds. Nothing is reported: the document is
  the one the same configuration without a time zone gives.
\<close>

theorem time_zone_dropped:
  assumes "\<not> snd (GetOk_string (start_time d))"
  shows "(\<exists>r. resourceLogicAppTriggerRecurrenceCreateUpdate_trigger L d ''recurrence''
                = Some (GMap r) \<and> r ''timeZone'' = None) \<and>
         resourceLogicAppTriggerRecurrenceCreateUpdate_trigger L d =
           resourceLogicAppTriggerRecurrenceCreateUpdate_trigger L (d\<lparr>time_zone := None\<rparr>)"
proof -
  obtain v where "GetOk_string (start_time d) = (v, False)"
    using assms by (cases "GetOk_string (start_time d)") auto
  then show ?thesis
    by (simp add: resourceLogicAppTriggerRecurrenceCreateUpdate_trigger_def Let_def
        GetOk_list_def split: bool.split)
qed

theorem time_zone_dropped_witness:
  "snd (GetOk_string (time_zone config_time_zone_only)) \<and>
   \<not> snd (GetOk_string (start_time config_time_zone_only)) \<and>
   (\<exists>r. resourceLogicAppTriggerRecurrenceCreateUpdate_trigger sorted_order
          config_time_zone_only ''recurrence'' = Some (GMap r) \<and> r ''timeZone'' = None)"
proof -
  have tz: "snd (GetOk_string (time_zone config_time_zone_only))"
    by (simp add: GetOk_string_def config_time_zone_only_def)
  have st: "\<not> snd (GetOk_string (start_time config_time_zone_only))"
    by (simp add: GetOk_string_def config_time_zone_only_def)
  from time_zone_dropped [OF st, of sorted_order] tz st show ?thesis
    by blast
qed

text \<open>
  C7. For every configuration the document has \<^verbatim>\<open>type = "Recurrence"\<close> and carries
  \<^verbatim>\<open>recurrence.frequency\<close> and \<^verbatim>\<open>recurrence.interval\<close>. When the configuration has
  no schedule block, \<^verbatim>\<open>recurrence\<close> has no \<^verbatim>\<open>schedule\<close> key. When it has one
  (\<^verbatim>\<open>d.GetOk("schedule")\<close> reports true), \<^verbatim>\<open>recurrence.schedule\<close> is an object
  decided by the first item of the list: each of \<^verbatim>\<open>hours\<close>, \<^verbatim>\<open>minutes\<close>,
  \<^verbatim>\<open>weekDays\<close> holds the list of the corresponding set when that set has an
  element, and is missing when the set is empty or not given, or when the item is nil;
  the object has no other key.
\<close>

theorem expand_document:
  assumes "set_order_ok L"
  shows "resourceLogicAppTriggerRecurrenceCreateUpdate_trigger L d ''type''
           = Some (GString ''Recurrence'') \<and>
         (\<exists>r. resourceLogicAppTriggerRecurrenceCreateUpdate_trigger L d ''recurrence''
                 = Some (GMap r) \<and>
               r ''frequency'' = Some (GString (Get_string (frequency d))) \<and>
               r ''interval'' = Some (GInt (Get_int (interval d))) \<and>
               (schedule d = [] \<longrightarrow> r ''schedule'' = None) \<and>
               (\<forall>item rest. schedule d = item # rest \<longrightarrow>
                  (\<exists>s. r ''schedule'' = Some (GMap s) \<and>
                       s ''hours'' =
                         (case item of None \<Rightarrow> None
                          | Some attrs \<Rightarrow>
                              (case at_these_hours attrs of None \<Rightarrow> None
                               | Some hs \<Rightarrow> if hs = {||} then None
                                            else Some (GIntSlicePtr (int_List L hs)))) \<and>
                       s ''minutes'' =
                         (case item of None \<Rightarrow> None
                          | Some attrs \<Rightarrow>
                              (case at_these_minutes attrs of None \<Rightarrow> None
                               | Some ms \<Rightarrow> if ms = {||} then None
                                            else Some (GIntSlicePtr (int_List L ms)))) \<and>
                       s ''weekDays'' =
                         (case item of None \<Rightarrow> None
                          | Some attrs \<Rightarrow>
                              (case on_these_days attrs of None \<Rightarrow> None
                               | Some ds \<Rightarrow> if ds = {||} then None
                                            else Some (GStringSlicePtr (string_List L ds)))) \<and>
                       dom s \<subseteq> {''hours'', ''minutes'', ''weekDays''})))"
proof -
  have "resourceLogicAppTriggerRecurrenceCreateUpdate_trigger L d ''type''
           = Some (GString ''Recurrence'')"
    by (simp add: resourceLogicAppTriggerRecurrenceCreateUpdate_trigger_def Let_def)
  moreover
  obtain r where r: "resourceLogicAppTriggerRecurrenceCreateUpdate_trigger L d ''recurrence''
         = Some (GMap r)"
       "r ''frequency'' = Some (GString (Get_string (frequency d)))"
       "r ''interval'' = Some (GInt (Get_int (interval d)))"
       "r ''schedule'' =
         (if schedule d \<noteq> []
          then Some (GMap (expandLogicAppTriggerRecurrenceSchedule L (schedule d)))
          else None)"
    using trigger_recurrence_keys [of L d] by blast
  have none: "schedule d = [] \<longrightarrow> r ''schedule'' = None"
    using r(4) by simp
  have "\<exists>s. r ''schedule'' = Some (GMap s) \<and>
                       s ''hours'' =
                         (case item of None \<Rightarrow> None
                          | Some attrs \<Rightarrow>
                              (case at_these_hours attrs of None \<Rightarrow> None
                               | Some hs \<Rightarrow> if hs = {||} then None
                                            else Some (GIntSlicePtr (int_List L hs)))) \<and>
                       s ''minutes'' =
                         (case item of None \<Rightarrow> None
                          | Some attrs \<Rightarrow>
                              (case at_these_minutes attrs of None \<Rightarrow> None
                               | Some ms \<Rightarrow> if ms = {||} then None
                                            else Some (GIntSlicePtr (int_List L ms)))) \<and>
                       s ''weekDays'' =
                         (case item of None \<Rightarrow> None
                          | Some attrs \<Rightarrow>
                              (case on_these_days attrs of None \<Rightarrow> None
                               | Some ds \<Rightarrow> if ds = {||} then None
                                            else Some (GStringSlicePtr (string_List L ds)))) \<and>
                       dom s \<subseteq> {''hours'', ''minutes'', ''weekDays''}"
    if "schedule d = item # rest" for item rest
  proof (cases item)
    case None
    have "expandLogicAppTriggerRecurrenceSchedule L (None # rest) = Map.empty"
      by (simp add: expandLogicAppTriggerRecurrenceSchedule_def)
    then show ?thesis using that r(4) None by simp
  next
    case (Some attrs)
    then show ?thesis
      using that r(4) expand_schedule_keys [OF assms, of attrs rest] by simp
  qed
  ultimately show ?thesis using r(1,2,3) none by blast
qed

theorem expand_document_witness:
  "set_order_ok sorted_order \<and>
   resourceLogicAppTriggerRecurrenceCreateUpdate_trigger sorted_order config_weekly ''type''
     = Some (GString ''Recurrence'') \<and>
   (\<exists>r s. resourceLogicAppTriggerRecurrenceCreateUpdate_trigger sorted_order config_weekly
             ''recurrence'' = Some (GMap r) \<and>
          r ''frequency'' = Some (GString ''Week'') \<and>
          r ''interval'' = Some (GInt 2) \<and>
          r ''schedule'' = Some (GMap s) \<and>
          s ''hours'' = None \<and> s ''minutes'' = None \<and>
          s ''weekDays'' = Some (GStringSlicePtr
             (string_List sorted_order {|''Monday'', ''Friday''|}))) \<and>
   (\<exists>r s. resourceLogicAppTriggerRecurrenceCreateUpdate_trigger sorted_order
             config_nil_block ''recurrence'' = Some (GMap r) \<and>
          r ''schedule'' = Some (GMap s) \<and>
          s ''hours'' = None \<and> s ''minutes'' = None \<and> s ''weekDays'' = None) \<and>
   (\<exists>r. resourceLogicAppTriggerRecurrenceCreateUpdate_trigger sorted_order
             config_time_zone_only ''recurrence'' = Some (GMap r) \<and>
        r ''schedule'' = None)"
proof -
  have sch: "schedule config_weekly =
      Some \<lparr> at_these_hours = Some {||}, at_these_minutes = Some {||},
             on_these_days = Some {|''Monday'', ''Friday''|} \<rparr> # []"
    by (simp add: config_weekly_def)
  have vals: "Get_string (frequency config_weekly) = ''Week''"
    "Get_int (interval config_weekly) = 2"
    by (simp_all add: config_weekly_def Get_string_def Get_int_def)
  have weekly: "\<exists>r s. resourceLogicAppTriggerRecurrenceCreateUpdate_trigger sorted_order
             config_weekly ''recurrence'' = Some (GMap r) \<and>
          r ''frequency'' = Some (GString ''Week'') \<and>
          r ''interval'' = Some (GInt 2) \<and>
          r ''schedule'' = Some (GMap s) \<and>
          s ''hours'' = None \<and> s ''minutes'' = None \<and>
          s ''weekDays'' = Some (GStringSlicePtr
             (string_List sorted_order {|''Monday'', ''Friday''|}))"
    using expand_document [OF set_order_ok_sorted, of config_weekly] sch vals
    by fastforce
  have nil_sch: "schedule config_nil_block = None # []"
    by (simp add: config_nil_block_def)
  have nil_block: "\<exists>r s. resourceLogicAppTriggerRecurrenceCreateUpdate_trigger sorted_order
             config_nil_block ''recurrence'' = Some (GMap r) \<and>
          r ''schedule'' = Some (GMap s) \<and>
          s ''hours'' = None \<and> s ''minutes'' = None \<and> s ''weekDays'' = None"
    using expand_document [OF set_order_ok_sorted, of config_nil_block] nil_sch
    by fastforce
  have no_sch: "schedule config_time_zone_only = []"
    by (simp add: config_time_zone_only_def)
  have no_block: "\<exists>r. resourceLogicAppTriggerRecurrenceCreateUpdate_trigger sorted_order
             config_time_zone_only ''recurrence'' = Some (GMap r) \<and>
        r ''schedule'' = None"
    using expand_document [OF set_order_ok_sorted, of config_time_zone_only] no_sch
    by fastforce
  have "resourceLogicAppTriggerRecurrenceCreateUpdate_trigger sorted_order config_weekly
          ''type'' = Some (GString ''Recurrence'')"
    using expand_document [OF set_order_ok_sorted, of config_weekly] by blast
  with set_order_ok_sorted weekly nil_block no_block show ?thesis
    by (simp only: simp_thms)
qed

text \<open>
  C8. The schema entry of \<^verbatim>\<open>interval\<close> has no validation function: every integer,
  zero and the negative ones included, passes, and the document carries it unchanged
  under \<^verbatim>\<open>recurrence.interval\<close>.
\<close>

theorem interval_forwarded:
  "validatePrimitive interval_schema (GInt n) \<and>
   (\<exists>r. resourceLogicAppTriggerRecurrenceCreateUpdate_trigger L (d\<lparr>interval := Some n\<rparr>)
           ''recurrence'' = Some (GMap r) \<and> r ''interval'' = Some (GInt n))"
  by (simp add: validatePrimitive_def interval_schema_def
      resourceLogicAppTriggerRecurrenceCreateUpdate_trigger_def Let_def Get_int_def
      GetOk_list_def split: prod.split bool.split)

subsection \<open>Validation of the frequency\<close>

text \<open>
  C6. The validation of \<^verbatim>\<open>frequency\<close> accepts a string exactly when it is one of
  Month, Week, Day, Hour, Minute, Second. The comparison is case-sensitive: the
  lower-case \<^verbatim>\<open>"month"\<close> is refused.
\<close>

theorem frequency_validation:
  "validatePrimitive frequency_schema (GString s) =
     (s \<in> {''Month'', ''Week'', ''Day'', ''Hour'', ''Minute'', ''Second''}) \<and>
   \<not> validatePrimitive frequency_schema (GString ''month'')"
  by (auto simp add: validatePrimitive_def frequency_schema_def StringInSlice_def)

subsection \<open>The schedule flattener\<close>

text \<open>
  C9. The schedule flattener returns a list of exactly one element for every input map.
  When the input has none of the keys \<^verbatim>\<open>hours\<close>, \<^verbatim>\<open>minutes\<close>, \<^verbatim>\<open>weekDays\<close>, that
  element is the empty attribute map.
\<close>

theorem flatten_schedule_singleton:
  "length (flattenLogicAppTriggerRecurrenceSchedule input) = 1 \<and>
   (input ''hours'' = None \<and> input ''minutes'' = None \<and> input ''weekDays'' = None
      \<longrightarrow> flattenLogicAppTriggerRecurrenceSchedule input = [Map.empty])"
  by (simp add: flattenLogicAppTriggerRecurrenceSchedule_def index_def Let_def)

theorem flatten_schedule_singleton_witness:
  "length (flattenLogicAppTriggerRecurrenceSchedule Map.empty) = 1 \<and>
   flattenLogicAppTriggerRecurrenceSchedule Map.empty = [Map.empty]"
  using flatten_schedule_singleton [of Map.empty] by simp

subsection \<open>Read\<close>

text \<open>
  C4. When the id parses and the retrieval returns no document and no error, Read
  returns no error and leaves the resource data as they were but for the id, which is
  the empty string.
\<close>

theorem read_not_found:
  assumes "ParseAzureResourceID (resource_id d) = Inr rid"
    and "retrieveLogicAppTrigger d (ResourceGroup rid) (path_index (Path rid) ''workflows'')
           (path_index (Path rid) ''triggers'') = (None, app, None)"
  shows "resourceLogicAppTriggerRecurrenceRead ParseAzureResourceID retrieveLogicAppTrigger d
           = Inr (d\<lparr>resource_id := []\<rparr>, None)"
  using assms by (simp add: resourceLogicAppTriggerRecurrenceRead_def Let_def)

theorem read_not_found_witness:
  "resourceLogicAppTriggerRecurrenceRead example_parse (retrieve_returning None)
     (config_time_zone_only\<lparr>resource_id := trigger1_id\<rparr>)
   = Inr (config_time_zone_only\<lparr>resource_id := []\<rparr>, None)"
proof -
  have "resourceLogicAppTriggerRecurrenceRead example_parse (retrieve_returning None)
     (config_time_zone_only\<lparr>resource_id := trigger1_id\<rparr>)
   = Inr (config_time_zone_only\<lparr>resource_id := trigger1_id\<rparr>\<lparr>resource_id := []\<rparr>, None)"
    by (rule read_not_found [where rid = example_id and app = None])
       (simp_all add: example_parse_def retrieve_returning_def)
  then show ?thesis by simp
qed

text \<open>
  C5. When the retrieval returns a document whose \<^verbatim>\<open>recurrence\<close> entry is missing,
  nil, or anything other than an object, Read returns an error. Its format is the one
  for a nil entry or the one for an entry that does not parse, and its arguments are
  the trigger name, the workflow name and the resource group, which the three
  \<^verbatim>\<open>%q\<close> verbs of either format print.
\<close>

theorem read_malformed_recurrence:
  assumes "ParseAzureResourceID (resource_id d) = Inr rid"
    and "retrieveLogicAppTrigger d (ResourceGroup rid) (path_index (Path rid) ''workflows'')
           (path_index (Path rid) ''triggers'') = (Some trigger, Some workflow, None)"
    and "\<forall>m. index trigger ''recurrence'' \<noteq> GMap m"
  shows "\<exists>d'. resourceLogicAppTriggerRecurrenceRead ParseAzureResourceID
                 retrieveLogicAppTrigger d =
               Inr (d', Some (Errorf
                 (if index trigger ''recurrence'' = GNil
                  then recurrence_nil_format else recurrence_parse_format)
                 [path_index (Path rid) ''triggers'', path_index (Path rid) ''workflows'',
                  ResourceGroup rid]))"
  using assms
  by (cases "index trigger ''recurrence''")
     (simp_all add: resourceLogicAppTriggerRecurrenceRead_def Let_def)

theorem read_malformed_recurrence_witness:
  "(\<exists>d'. resourceLogicAppTriggerRecurrenceRead example_parse
           (retrieve_returning (Some trigger_without_recurrence))
           (new_ResourceData trigger1_id) =
         Inr (d', Some (Errorf recurrence_nil_format
                          [''every-day'', ''workflow1'', ''group1'']))) \<and>
   (\<exists>d'. resourceLogicAppTriggerRecurrenceRead example_parse
           (retrieve_returning (Some trigger_recurrence_string))
           (new_ResourceData trigger1_id) =
         Inr (d', Some (Errorf recurrence_parse_format
                          [''every-day'', ''workflow1'', ''group1''])))"
proof -
  have p: "example_parse (resource_id (new_ResourceData trigger1_id)) = Inr example_id"
    by (simp add: example_parse_def)
  have names: "path_index (Path example_id) ''triggers'' = ''every-day''"
    "path_index (Path example_id) ''workflows'' = ''workflow1''"
    "ResourceGroup example_id = ''group1''"
    by (simp_all add: example_id_def path_index_def)
  have r1: "retrieve_returning (Some trigger_without_recurrence)
              (new_ResourceData trigger1_id) (ResourceGroup example_id)
              (path_index (Path example_id) ''workflows'')
              (path_index (Path example_id) ''triggers'')
            = (Some trigger_without_recurrence, Some example_workflow, None)"
    by (simp add: retrieve_returning_def)
  have r2: "retrieve_returning (Some trigger_recurrence_string)
              (new_ResourceData trigger1_id) (ResourceGroup example_id)
              (path_index (Path example_id) ''workflows'')
              (path_index (Path example_id) ''triggers'')
            = (Some trigger_recurrence_string, Some example_workflow, None)"
    by (simp add: retrieve_returning_def)
  have v1: "index trigger_without_recurrence ''recurrence'' = GNil"
    by (simp add: index_def trigger_without_recurrence_def)
  have v2: "index trigger_recurrence_string ''recurrence'' = GString ''Day''"
    by (simp add: index_def trigger_recurrence_string_def)
  have m1: "\<forall>m. index trigger_without_recurrence ''recurrence'' \<noteq> GMap m"
    by (simp add: v1)
  have m2: "\<forall>m. index trigger_recurrence_string ''recurrence'' \<noteq> GMap m"
    by (simp add: v2)
  from read_malformed_recurrence [where ParseAzureResourceID = example_parse
         and retrieveLogicAppTrigger = "retrieve_returning (Some trigger_without_recurrence)"
         and d = "new_ResourceData trigger1_id", OF p r1 m1]
       read_malformed_recurrence [where ParseAzureResourceID = example_parse
         and retrieveLogicAppTrigger = "retrieve_returning (Some trigger_recurrence_string)"
         and d = "new_ResourceData trigger1_id", OF p r2 m2]
  show ?thesis
    by (simp add: names v1 v2)
qed

text \<open>
  C10. On that error path Read has already stored \<^verbatim>\<open>name\<close> and
  \<^verbatim>\<open>logic_app_id\<close>: the resource data it leaves are the given ones with these two
  keys written, and they differ from the given ones unless both keys already held
  these values.
\<close>

theorem read_malformed_state:
  assumes "ParseAzureResourceID (resource_id d) = Inr rid"
    and "retrieveLogicAppTrigger d (ResourceGroup rid) (path_index (Path rid) ''workflows'')
           (path_index (Path rid) ''triggers'') = (Some trigger, Some workflow, None)"
    and "\<forall>m. index trigger ''recurrence'' \<noteq> GMap m"
  shows "(\<exists>err. resourceLogicAppTriggerRecurrenceRead ParseAzureResourceID
                 retrieveLogicAppTrigger d =
               Inr (d\<lparr>name := Some (path_index (Path rid) ''triggers''),
                      logic_app_id := ID workflow\<rparr>, Some err)) \<and>
         (name d \<noteq> Some (path_index (Path rid) ''triggers'') \<or> logic_app_id d \<noteq> ID workflow
            \<longrightarrow> d\<lparr>name := Some (path_index (Path rid) ''triggers''),
                   logic_app_id := ID workflow\<rparr> \<noteq> d)"
proof -
  have "\<exists>err. resourceLogicAppTriggerRecurrenceRead ParseAzureResourceID
                 retrieveLogicAppTrigger d =
               Inr (d\<lparr>name := Some (path_index (Path rid) ''triggers''),
                      logic_app_id := ID workflow\<rparr>, Some err)"
    using assms
    by (cases "index trigger ''recurrence''")
       (simp_all add: resourceLogicAppTriggerRecurrenceRead_def Let_def)
  moreover have "name d \<noteq> Some (path_index (Path rid) ''triggers'') \<or> logic_app_id d \<noteq> ID workflow
            \<longrightarrow> d\<lparr>name := Some (path_index (Path rid) ''triggers''),
                   logic_app_id := ID workflow\<rparr> \<noteq> d"
    by (cases d) auto
  ultimately show ?thesis by blast
qed

theorem read_malformed_state_witness:
  "(\<exists>err. resourceLogicAppTriggerRecurrenceRead example_parse
           (retrieve_returning (Some trigger_without_recurrence))
           (new_ResourceData trigger1_id) =
         Inr ((new_ResourceData trigger1_id)
                \<lparr>name := Some ''every-day'', logic_app_id := Some workflow1_id\<rparr>,
              Some err)) \<and>
   (new_ResourceData trigger1_id)
      \<lparr>name := Some ''every-day'', logic_app_id := Some workflow1_id\<rparr>
     \<noteq> new_ResourceData trigger1_id"
proof -
  have p: "example_parse (resource_id (new_ResourceData trigger1_id)) = Inr example_id"
    by (simp add: example_parse_def)
  have names: "path_index (Path example_id) ''triggers'' = ''every-day''"
    "ID example_workflow = Some workflow1_id"
    by (simp_all add: example_id_def path_index_def example_workflow_def)
  have r1: "retrieve_returning (Some trigger_without_recurrence)
              (new_ResourceData trigger1_id) (ResourceGroup example_id)
              (path_index (Path example_id) ''workflows'')
              (path_index (Path example_id) ''triggers'')
            = (Some trigger_without_recurrence, Some example_workflow, None)"
    by (simp add: retrieve_returning_def)
  have m1: "\<forall>m. index trigger_without_recurrence ''recurrence'' \<noteq> GMap m"
    by (simp add: index_def trigger_without_recurrence_def)
  have unset: "name (new_ResourceData trigger1_id) = None"
    by (simp add: new_ResourceData_def)
  from read_malformed_state [where ParseAzureResourceID = example_parse
         and retrieveLogicAppTrigger = "retrieve_returning (Some trigger_without_recurrence)"
         and d = "new_ResourceData trigger1_id", OF p r1 m1]
  show ?thesis
    by (simp add: names unset)
qed

subsection \<open>From a configuration to the document and back\<close>

lemma decode_ints_exact:
  assumes "\<forall>n\<in>set ns. \<bar>n\<bar> \<le> 2 ^ 53"
  shows "those (map decodeInt (map (\<lambda>n. GFloat64 (float64_of_int n)) ns)) = Some ns"
  using assms
  by (induction ns) (simp_all add: decodeInt_def float64_of_int_exact go_int_of_int)

lemma decode_strings: "those (map decodeString (map GString ss)) = Some ss"
  by (induction ss) (simp_all add: decodeString_def)

lemma flatten_wire_schedule:
  assumes "set_order_ok L"
  shows "\<exists>attrs.
     flattenLogicAppTriggerRecurrenceSchedule
       (\<lambda>k. map_option json_roundtrip
              (expandLogicAppTriggerRecurrenceSchedule L (Some a # rest) k)) = [attrs] \<and>
     attrs ''at_these_hours'' =
       (if Get_set (at_these_hours a) = {||} then None
        else Some (GSlice (map (\<lambda>n. GFloat64 (float64_of_int n))
                      (int_List L (Get_set (at_these_hours a)))))) \<and>
     attrs ''at_these_minutes'' =
       (if Get_set (at_these_minutes a) = {||} then None
        else Some (GSlice (map (\<lambda>n. GFloat64 (float64_of_int n))
                      (int_List L (Get_set (at_these_minutes a)))))) \<and>
     attrs ''on_these_days'' =
       (if Get_set (on_these_days a) = {||} then None
        else Some (GSlice (map GString (string_List L (Get_set (on_these_days a))))))"
  using expand_schedule_keys(1,2,3) [OF assms, of a rest]
  by (simp add: flattenLogicAppTriggerRecurrenceSchedule_def Let_def index_def Get_set_def
      split: option.splits)

lemma fset_of_int_List:
  assumes "set_order_ok L"
  shows "fset_of_list (int_List L s) = s" "fset_of_list (string_List L t) = t"
  using assms by (simp_all add: set_order_ok_def)

lemma int_List_bound:
  assumes "set_order_ok L" and "\<forall>h. h |\<in>| s \<longrightarrow> \<bar>h\<bar> \<le> 2 ^ 53"
  shows "\<forall>n\<in>set (int_List L s). \<bar>n\<bar> \<le> 2 ^ 53"
proof
  fix n assume "n \<in> set (int_List L s)"
  then have "n |\<in>| fset_of_list (int_List L s)" by (simp add: fset_of_list_elem)
  then have "n |\<in>| s" using fset_of_int_List(1) [OF assms(1)] by simp
  then show "\<bar>n\<bar> \<le> 2 ^ 53" using assms(2) by blast
qed

lemma schedule_roundtrip:
  assumes "set_order_ok L"
    and "\<forall>h. h |\<in>| Get_set (at_these_hours a) \<longrightarrow> \<bar>h\<bar> \<le> 2 ^ 53"
    and "\<forall>m. m |\<in>| Get_set (at_these_minutes a) \<longrightarrow> \<bar>m\<bar> \<le> 2 ^ 53"
  shows "Set_schedule
           (flattenLogicAppTriggerRecurrenceSchedule
              (\<lambda>k. map_option json_roundtrip
                     (expandLogicAppTriggerRecurrenceSchedule L (Some a # rest) k))) d =
         d\<lparr>schedule :=
             [Some \<lparr> at_these_hours = Some (Get_set (at_these_hours a)),
                     at_these_minutes = Some (Get_set (at_these_minutes a)),
                     on_these_days = Some (Get_set (on_these_days a)) \<rparr>]\<rparr>"
proof -
  obtain attrs where attrs:
    "flattenLogicAppTriggerRecurrenceSchedule
       (\<lambda>k. map_option json_roundtrip
              (expandLogicAppTriggerRecurrenceSchedule L (Some a # rest) k)) = [attrs]"
    "attrs ''at_these_hours'' =
       (if Get_set (at_these_hours a) = {||} then None
        else Some (GSlice (map (\<lambda>n. GFloat64 (float64_of_int n))
                      (int_List L (Get_set (at_these_hours a))))))"
    "attrs ''at_these_minutes'' =
       (if Get_set (at_these_minutes a) = {||} then None
        else Some (GSlice (map (\<lambda>n. GFloat64 (float64_of_int n))
                      (int_List L (Get_set (at_these_minutes a))))))"
    "attrs ''on_these_days'' =
       (if Get_set (on_these_days a) = {||} then None
        else Some (GSlice (map GString (string_List L (Get_set (on_these_days a))))))"
    using flatten_wire_schedule [OF assms(1), of a rest] by blast
  have h: "decode_int_set (attrs ''at_these_hours'') = Some (Get_set (at_these_hours a))"
    using decode_ints_exact [OF int_List_bound [OF assms(1,2)]]
    by (simp add: attrs(2) decode_int_set_def fset_of_int_List [OF assms(1)])
  have m: "decode_int_set (attrs ''at_these_minutes'') = Some (Get_set (at_these_minutes a))"
    using decode_ints_exact [OF int_List_bound [OF assms(1,3)]]
    by (simp add: attrs(3) decode_int_set_def fset_of_int_List [OF assms(1)])
  have ds: "decode_string_set (attrs ''on_these_days'') = Some (Get_set (on_these_days a))"
    by (simp add: attrs(4) decode_string_set_def decode_strings
        fset_of_int_List [OF assms(1)] del: map_map)
  show ?thesis
    by (simp add: Set_schedule_def attrs(1) decode_attrs_def h m ds)
qed

lemma time_zone_nonempty:
  "validateLogicAppTriggerRecurrenceTimeZone (GString z) \<Longrightarrow> z \<noteq> []"
  by (auto simp add: validateLogicAppTriggerRecurrenceTimeZone_def StringInSlice_def
      timeZones_def)

lemma valid_schedule_bounds:
  assumes "valid_schedule_attrs a"
  shows "\<forall>h. h |\<in>| Get_set (at_these_hours a) \<longrightarrow> \<bar>h\<bar> \<le> 2 ^ 53"
    and "\<forall>m. m |\<in>| Get_set (at_these_minutes a) \<longrightarrow> \<bar>m\<bar> \<le> 2 ^ 53"
proof -
  have small: "\<bar>h\<bar> \<le> 2 ^ 53" if "0 \<le> h" "h \<le> 59" for h :: int
    using that by simp
  show "\<forall>h. h |\<in>| Get_set (at_these_hours a) \<longrightarrow> \<bar>h\<bar> \<le> 2 ^ 53"
  proof (intro allI impI)
    fix h assume "h |\<in>| Get_set (at_these_hours a)"
    then have "IntBetween 0 23 (GInt h)"
      using assms by (simp add: valid_schedule_attrs_def)
    then have "0 \<le> h" "h \<le> 59" by (simp_all add: IntBetween_def)
    then show "\<bar>h\<bar> \<le> 2 ^ 53" by (rule small)
  qed
  show "\<forall>m. m |\<in>| Get_set (at_these_minutes a) \<longrightarrow> \<bar>m\<bar> \<le> 2 ^ 53"
  proof (intro allI impI)
    fix m assume "m |\<in>| Get_set (at_these_minutes a)"
    then have "IntBetween 0 59 (GInt m)"
      using assms by (simp add: valid_schedule_attrs_def)
    then have "0 \<le> m" "m \<le> 59" by (simp_all add: IntBetween_def)
    then show "\<bar>m\<bar> \<le> 2 ^ 53" by (rule small)
  qed
qed

text \<open>
  C2, as amended. Take a configuration that the schema accepts, whose time zone is given
  only together with a start time, and whose interval has magnitude at most \<open>2 ^ 53\<close>.
  Expand it, read the document back from JSON, and flatten the \<^verbatim>\<open>recurrence\<close> object
  into resource data that hold nothing: the result has the field values of the
  configuration.
\<close>

theorem flatten_expand_roundtrip:
  assumes L: "set_order_ok L"
    and valid: "valid_TriggerConfig C"
    and tz: "time_zone C \<noteq> None \<longrightarrow> start_time C \<noteq> None"
    and iv: "\<bar>Get_int (interval C)\<bar> \<le> 2 ^ 53"
  shows "\<exists>r d'. wire (resourceLogicAppTriggerRecurrenceCreateUpdate_trigger L C)
                   ''recurrence'' = Some (GMap r) \<and>
                 Read_recurrence r (new_ResourceData x) = Inr d' \<and>
                 field_values d' = field_values C"
proof -
  obtain r0 where r0:
    "resourceLogicAppTriggerRecurrenceCreateUpdate_trigger L C ''recurrence'' = Some (GMap r0)"
    "r0 ''frequency'' = Some (GString (Get_string (frequency C)))"
    "r0 ''interval'' = Some (GInt (Get_int (interval C)))"
    "r0 ''startTime'' =
       (if snd (GetOk_string (start_time C))
        then Some (GString (fst (GetOk_string (start_time C)))) else None)"
    "r0 ''timeZone'' =
       (if snd (GetOk_string (start_time C)) \<and> snd (GetOk_string (time_zone C))
        then Some (GString (fst (GetOk_string (time_zone C)))) else None)"
    "r0 ''schedule'' =
       (if schedule C \<noteq> []
        then Some (GMap (expandLogicAppTriggerRecurrenceSchedule L (schedule C)))
        else None)"
    using trigger_recurrence_keys [of L C] by blast
  define r where "r = (\<lambda>k. map_option json_roundtrip (r0 k))"
  have w: "wire (resourceLogicAppTriggerRecurrenceCreateUpdate_trigger L C) ''recurrence''
             = Some (GMap r)"
    unfolding r_def using r0(1) by (simp add: wire_def)
  have st: "Get_string (start_time C) =
              (if snd (GetOk_string (start_time C)) then fst (GetOk_string (start_time C)) else [])"
    by (simp add: Get_string_def GetOk_string_def split: option.split)
  have tzv: "Get_string (time_zone C) =
              (if snd (GetOk_string (start_time C)) \<and> snd (GetOk_string (time_zone C))
               then fst (GetOk_string (time_zone C)) else [])"
    using valid tz time_zone_nonempty
    by (auto simp add: Get_string_def GetOk_string_def valid_TriggerConfig_def
        split: option.splits)
  have k1: "index r ''frequency'' = GString (Get_string (frequency C))"
    by (simp add: r_def index_def r0(2))
  have k2: "index r ''interval'' = GFloat64 (of_int (Get_int (interval C)))"
    by (simp add: r_def index_def r0(3) float64_of_int_exact [OF iv])
  have k3: "index r ''startTime'' =
       (if snd (GetOk_string (start_time C))
        then GString (fst (GetOk_string (start_time C))) else GNil)"
    by (simp add: r_def index_def r0(4))
  have k4: "index r ''timeZone'' =
       (if snd (GetOk_string (start_time C)) \<and> snd (GetOk_string (time_zone C))
        then GString (fst (GetOk_string (time_zone C))) else GNil)"
    by (simp add: r_def index_def r0(5))
  have k5: "index r ''schedule'' =
       (if schedule C \<noteq> []
        then GMap (\<lambda>k. map_option json_roundtrip
                          (expandLogicAppTriggerRecurrenceSchedule L (schedule C) k))
        else GNil)"
    by (simp add: r_def index_def r0(6))
  have sch: "schedule C = [] \<or> (\<exists>a. schedule C = [Some a] \<and> valid_schedule_attrs a)"
  proof (cases "schedule C")
    case Nil
    then show ?thesis by simp
  next
    case (Cons item rest)
    then show ?thesis
      using valid by (cases item; cases rest) (simp_all add: valid_TriggerConfig_def)
  qed
  then have "\<exists>d'. Read_recurrence r (new_ResourceData x) = Inr d' \<and>
                  field_values d' = field_values C"
  proof
    assume "schedule C = []"
    then show ?thesis
      by (simp add: Read_recurrence_def Read_frequency_def Read_interval_def
          Read_start_time_def Read_time_zone_def Read_schedule_def and_then_def
          assert_string_def assert_float64_def k1 k2 k3 k4 k5 Let_def go_int_of_int
          new_ResourceData_def field_values_def st tzv Get_simps)
  next
    assume "\<exists>a. schedule C = [Some a] \<and> valid_schedule_attrs a"
    then obtain a where a: "schedule C = [Some a]" "valid_schedule_attrs a" by blast
    note rt = schedule_roundtrip [OF L valid_schedule_bounds [OF a(2)], of "[]"]
    show ?thesis
      by (simp add: Read_recurrence_def Read_frequency_def Read_interval_def
          Read_start_time_def Read_time_zone_def Read_schedule_def and_then_def
          assert_string_def assert_float64_def assert_map_def k1 k2 k3 k4 k5 Let_def
          go_int_of_int new_ResourceData_def field_values_def st tzv a(1) rt Get_simps
          schedule_sets_def Get_set_def)
  qed
  with w show ?thesis by blast
qed

theorem flatten_expand_roundtrip_witness:
  "set_order_ok sorted_order \<and> valid_TriggerConfig config_weekly \<and>
   start_time config_weekly \<noteq> None \<and>
   \<bar>Get_int (interval config_weekly)\<bar> \<le> 2 ^ 53 \<and>
   (\<exists>r d'. wire (resourceLogicAppTriggerRecurrenceCreateUpdate_trigger sorted_order
                   config_weekly) ''recurrence'' = Some (GMap r) \<and>
           Read_recurrence r (new_ResourceData []) = Inr d' \<and>
           field_values d' = field_values config_weekly)"
proof -
  have sch: "valid_schedule_attrs
      \<lparr> at_these_hours = Some {||}, at_these_minutes = Some {||},
        on_these_days = Some {|''Monday'', ''Friday''|} \<rparr>"
    by (auto simp add: valid_schedule_attrs_def Get_set_def StringInSlice_def weekDays_def)
  have valid: "valid_TriggerConfig config_weekly"
    using sch
    by (simp add: valid_TriggerConfig_def config_weekly_def validatePrimitive_def
        frequency_schema_def interval_schema_def StringInSlice_def
        validateLogicAppTriggerRecurrenceTimeZone_def timeZones_def)
  have st: "start_time config_weekly \<noteq> None"
    by (simp add: config_weekly_def)
  have tz: "time_zone config_weekly \<noteq> None \<longrightarrow> start_time config_weekly \<noteq> None"
    using st by simp
  have iv: "\<bar>Get_int (interval config_weekly)\<bar> \<le> 2 ^ 53"
    by (simp add: config_weekly_def Get_simps)
  from flatten_expand_roundtrip [OF set_order_ok_sorted valid tz iv, of "[]"]
    set_order_ok_sorted valid st iv
  show ?thesis by (simp only: simp_thms)
qed

text \<open>
  C2, as stated, fails on a configuration with a time zone and no start time: the
  document carries no \<^verbatim>\<open>timeZone\<close>, and flattening it yields no time zone.
\<close>

theorem flatten_expand_counterexample:
  "set_order_ok sorted_order \<and>
   valid_TriggerConfig config_time_zone_only \<and>
   wire (resourceLogicAppTriggerRecurrenceCreateUpdate_trigger sorted_order
           config_time_zone_only) ''recurrence'' =
     Some (GMap [''frequency'' \<mapsto> GString ''Day'', ''interval'' \<mapsto> GFloat64 1]) \<and>
   Read_recurrence [''frequency'' \<mapsto> GString ''Day'', ''interval'' \<mapsto> GFloat64 1]
       (new_ResourceData []) =
     Inr ((new_ResourceData [])\<lparr>frequency := Some ''Day'', interval := Some 1\<rparr>) \<and>
   field_values ((new_ResourceData [])\<lparr>frequency := Some ''Day'', interval := Some 1\<rparr>)
     = (''Day'', 1, [], [], []) \<and>
   field_values config_time_zone_only = (''Day'', 1, [], ''UTC'', [])"
proof -
  have valid: "valid_TriggerConfig config_time_zone_only"
    by (simp add: valid_TriggerConfig_def config_time_zone_only_def validatePrimitive_def
        frequency_schema_def interval_schema_def StringInSlice_def
        validateLogicAppTriggerRecurrenceTimeZone_def timeZones_def)
  have one: "float64_of_int 1 = 1"
    using float64_of_int_exact [of 1] by simp
  have w: "wire (resourceLogicAppTriggerRecurrenceCreateUpdate_trigger sorted_order
           config_time_zone_only) ''recurrence'' =
     Some (GMap [''frequency'' \<mapsto> GString ''Day'', ''interval'' \<mapsto> GFloat64 1])"
    by (auto simp add: wire_def resourceLogicAppTriggerRecurrenceCreateUpdate_trigger_def
        Let_def config_time_zone_only_def Get_simps GetOk_simps GetOk_list_def one
        fun_eq_iff)
  have rd: "Read_recurrence [''frequency'' \<mapsto> GString ''Day'', ''interval'' \<mapsto> GFloat64 1]
       (new_ResourceData []) =
     Inr ((new_ResourceData [])\<lparr>frequency := Some ''Day'', interval := Some 1\<rparr>)"
    by (simp add: Read_recurrence_def Read_frequency_def Read_interval_def
        Read_start_time_def Read_time_zone_def Read_schedule_def and_then_def
        assert_string_def assert_float64_def index_def Let_def go_int_def)
  have fv1: "field_values ((new_ResourceData [])\<lparr>frequency := Some ''Day'', interval := Some 1\<rparr>)
     = (''Day'', 1, [], [], [])"
    by (simp add: field_values_def new_ResourceData_def Get_simps)
  have fv2: "field_values config_time_zone_only = (''Day'', 1, [], ''UTC'', [])"
    by (simp add: field_values_def config_time_zone_only_def Get_simps)
  from set_order_ok_sorted valid w rd fv1 fv2 show ?thesis by (simp only: simp_thms)
qed

subsection \<open>From a document to the configuration and back\<close>

lemma whole_numbers_decode:
  assumes "list_all whole_number xs"
  shows "\<exists>ns. those (map decodeInt xs) = Some ns \<and>
              map (\<lambda>n. GFloat64 (float64_of_int n)) ns = xs"
  using assms
proof (induction xs)
  case Nil
  then show ?case by simp
next
  case (Cons x xs)
  then obtain ns where ns: "those (map decodeInt xs) = Some ns"
      "map (\<lambda>n. GFloat64 (float64_of_int n)) ns = xs"
    by auto
  from Cons.prems obtain f where f: "x = GFloat64 f" "f = of_int (go_int f)"
      "\<bar>go_int f\<bar> \<le> 2 ^ 53"
    by (cases x) (simp_all add: whole_number_def)
  have fx: "float64_of_int (go_int f) = f"
    using f(2) float64_of_int_exact [OF f(3)] by simp
  have dx: "decodeInt (GFloat64 f) = Some (go_int f)"
    by (simp add: decodeInt_def)
  show ?case
    by (rule exI [of _ "go_int f # ns"]) (simp add: dx ns fx f(1))
qed

lemma strings_decode:
  assumes "list_all is_string xs"
  shows "\<exists>ss. those (map decodeString xs) = Some ss \<and> map GString ss = xs"
  using assms
proof (induction xs)
  case Nil
  then show ?case by simp
next
  case (Cons x xs)
  then obtain ss where ss: "those (map decodeString xs) = Some ss" "map GString ss = xs"
    by auto
  from Cons.prems obtain s where s: "x = GString s"
    by (cases x) (simp_all add: is_string_def)
  have dx: "decodeString (GString s) = Some s"
    by (simp add: decodeString_def)
  show ?case
    by (rule exI [of _ "s # ss"]) (simp add: dx ss s)
qed

lemma decode_number_array:
  assumes "pred_option number_array v"
  shows "\<exists>hs. decode_int_set v = Some hs \<and>
          (case v of
             None \<Rightarrow> hs = {||}
           | Some a \<Rightarrow> (\<exists>ns. hs = fset_of_list ns \<and>
                          a = GSlice (map (\<lambda>n. GFloat64 (float64_of_int n)) ns)))"
proof (cases v)
  case None
  then show ?thesis by (simp add: decode_int_set_def)
next
  case (Some a)
  then obtain xs where xs: "a = GSlice xs" "list_all whole_number xs"
    using assms by (cases a) (simp_all add: number_array_def)
  from whole_numbers_decode [OF xs(2)] obtain ns where
    "those (map decodeInt xs) = Some ns" "map (\<lambda>n. GFloat64 (float64_of_int n)) ns = xs"
    by blast
  then show ?thesis using Some xs(1) by (auto simp add: decode_int_set_def)
qed

lemma decode_string_array:
  assumes "pred_option string_array v"
  shows "\<exists>ds. decode_string_set v = Some ds \<and>
          (case v of
             None \<Rightarrow> ds = {||}
           | Some a \<Rightarrow> (\<exists>ss. ds = fset_of_list ss \<and> a = GSlice (map GString ss)))"
proof (cases v)
  case None
  then show ?thesis by (simp add: decode_string_set_def)
next
  case (Some a)
  then obtain xs where xs: "a = GSlice xs" "list_all is_string xs"
    using assms by (cases a) (simp_all add: string_array_def)
  from strings_decode [OF xs(2)] obtain ss where
    "those (map decodeString xs) = Some ss" "map GString ss = xs"
    by blast
  then show ?thesis using Some xs(1) by (auto simp add: decode_string_set_def)
qed

lemma flatten_well_formed:
  assumes "well_formed_schedule (GMap s)"
  shows "\<exists>attrs. flattenLogicAppTriggerRecurrenceSchedule s = [attrs] \<and>
           attrs ''at_these_hours'' = s ''hours'' \<and>
           attrs ''at_these_minutes'' = s ''minutes'' \<and>
           attrs ''on_these_days'' = s ''weekDays''"
proof -
  have h: "s ''hours'' \<noteq> Some GNil" "s ''minutes'' \<noteq> Some GNil" "s ''weekDays'' \<noteq> Some GNil"
    using assms by (auto simp add: well_formed_schedule_def number_array_def string_array_def)
  then show ?thesis
    by (auto simp add: flattenLogicAppTriggerRecurrenceSchedule_def Let_def index_def
        split: option.splits)
qed

lemma read_schedule_well_formed:
  assumes "well_formed_schedule (GMap s)"
  shows "\<exists>hs ms ds.
           Set_schedule (flattenLogicAppTriggerRecurrenceSchedule s) d =
             d\<lparr>schedule := [Some \<lparr> at_these_hours = Some hs, at_these_minutes = Some ms,
                                     on_these_days = Some ds \<rparr>]\<rparr> \<and>
           (case s ''hours'' of
              None \<Rightarrow> hs = {||}
            | Some a \<Rightarrow> (\<exists>ns. hs = fset_of_list ns \<and>
                           a = GSlice (map (\<lambda>n. GFloat64 (float64_of_int n)) ns))) \<and>
           (case s ''minutes'' of
              None \<Rightarrow> ms = {||}
            | Some a \<Rightarrow> (\<exists>ns. ms = fset_of_list ns \<and>
                           a = GSlice (map (\<lambda>n. GFloat64 (float64_of_int n)) ns))) \<and>
           (case s ''weekDays'' of
              None \<Rightarrow> ds = {||}
            | Some a \<Rightarrow> (\<exists>ss. ds = fset_of_list ss \<and> a = GSlice (map GString ss)))"
proof -
  obtain attrs where attrs: "flattenLogicAppTriggerRecurrenceSchedule s = [attrs]"
      "attrs ''at_these_hours'' = s ''hours''"
      "attrs ''at_these_minutes'' = s ''minutes''"
      "attrs ''on_these_days'' = s ''weekDays''"
    using flatten_well_formed [OF assms] by blast
  have wf: "pred_option number_array (s ''hours'')" "pred_option number_array (s ''minutes'')"
      "pred_option string_array (s ''weekDays'')"
    using assms by (simp_all add: well_formed_schedule_def)
  obtain hs where hs: "decode_int_set (s ''hours'') = Some hs"
      "case s ''hours'' of
              None \<Rightarrow> hs = {||}
            | Some a \<Rightarrow> (\<exists>ns. hs = fset_of_list ns \<and>
                           a = GSlice (map (\<lambda>n. GFloat64 (float64_of_int n)) ns))"
    using decode_number_array [OF wf(1)] by blast
  obtain ms where ms: "decode_int_set (s ''minutes'') = Some ms"
      "case s ''minutes'' of
              None \<Rightarrow> ms = {||}
            | Some a \<Rightarrow> (\<exists>ns. ms = fset_of_list ns \<and>
                           a = GSlice (map (\<lambda>n. GFloat64 (float64_of_int n)) ns))"
    using decode_number_array [OF wf(2)] by blast
  obtain ds where ds: "decode_string_set (s ''weekDays'') = Some ds"
      "case s ''weekDays'' of
              None \<Rightarrow> ds = {||}
            | Some a \<Rightarrow> (\<exists>ss. ds = fset_of_list ss \<and> a = GSlice (map GString ss))"
    using decode_string_array [OF wf(3)] by blast
  have "Set_schedule (flattenLogicAppTriggerRecurrenceSchedule s) d =
             d\<lparr>schedule := [Some \<lparr> at_these_hours = Some hs, at_these_minutes = Some ms,
                                     on_these_days = Some ds \<rparr>]\<rparr>"
    by (simp add: Set_schedule_def attrs decode_attrs_def hs(1) ms(1) ds(1))
  with hs(2) ms(2) ds(2) show ?thesis by blast
qed

lemma set_int_List:
  assumes "set_order_ok L"
  shows "set (int_List L (fset_of_list ns)) = set ns"
    and "set (string_List L (fset_of_list ss)) = set ss"
proof -
  have "fset (fset_of_list (int_List L (fset_of_list ns))) = fset (fset_of_list ns)"
    using fset_of_int_List(1) [OF assms] by simp
  then show "set (int_List L (fset_of_list ns)) = set ns"
    by (simp add: fset_of_list.rep_eq)
  have "fset (fset_of_list (string_List L (fset_of_list ss))) = fset (fset_of_list ss)"
    using fset_of_int_List(2) [OF assms] by simp
  then show "set (string_List L (fset_of_list ss)) = set ss"
    by (simp add: fset_of_list.rep_eq)
qed

lemma int_key_equiv:
  assumes "set_order_ok L"
    and "case v of
           None \<Rightarrow> hs = {||}
         | Some a \<Rightarrow> (\<exists>ns. hs = fset_of_list ns \<and>
                        a = GSlice (map (\<lambda>n. GFloat64 (float64_of_int n)) ns))"
    and "pred_option nonempty_array v"
  shows "rel_option same_elements
           (map_option json_roundtrip
              (if hs = {||} then None else Some (GIntSlicePtr (int_List L hs)))) v"
proof (cases v)
  case None
  then show ?thesis using assms(2) by simp
next
  case (Some a)
  then obtain ns where ns: "hs = fset_of_list ns"
      "a = GSlice (map (\<lambda>n. GFloat64 (float64_of_int n)) ns)"
    using assms(2) by auto
  have "ns \<noteq> []" using assms(3) Some ns(2) by (simp add: nonempty_array_def)
  then have "hs \<noteq> {||}" using ns(1) by (simp add: fset_of_list_empty_iff)
  then show ?thesis
    using Some ns set_int_List(1) [OF assms(1), of ns]
    by (simp add: same_elements_def)
qed

lemma string_key_equiv:
  assumes "set_order_ok L"
    and "case v of
           None \<Rightarrow> ds = {||}
         | Some a \<Rightarrow> (\<exists>ss. ds = fset_of_list ss \<and> a = GSlice (map GString ss))"
    and "pred_option nonempty_array v"
  shows "rel_option same_elements
           (map_option json_roundtrip
              (if ds = {||} then None else Some (GStringSlicePtr (string_List L ds)))) v"
proof (cases v)
  case None
  then show ?thesis using assms(2) by simp
next
  case (Some a)
  then obtain ss where ss: "ds = fset_of_list ss" "a = GSlice (map GString ss)"
    using assms(2) by auto
  have "ss \<noteq> []" using assms(3) Some ss(2) by (simp add: nonempty_array_def)
  then have "ds \<noteq> {||}" using ss(1) by (simp add: fset_of_list_empty_iff)
  then show ?thesis
    using Some ss set_int_List(2) [OF assms(1), of ss]
    by (simp add: same_elements_def)
qed

lemma schedule_object_equiv:
  assumes L: "set_order_ok L"
    and wf: "well_formed_schedule (GMap s)"
    and ne: "pred_option nonempty_array (s ''hours'')"
        "pred_option nonempty_array (s ''minutes'')"
        "pred_option nonempty_array (s ''weekDays'')"
    and hs: "case s ''hours'' of
              None \<Rightarrow> hs = {||}
            | Some a \<Rightarrow> (\<exists>ns. hs = fset_of_list ns \<and>
                           a = GSlice (map (\<lambda>n. GFloat64 (float64_of_int n)) ns))"
    and ms: "case s ''minutes'' of
              None \<Rightarrow> ms = {||}
            | Some a \<Rightarrow> (\<exists>ns. ms = fset_of_list ns \<and>
                           a = GSlice (map (\<lambda>n. GFloat64 (float64_of_int n)) ns))"
    and ds: "case s ''weekDays'' of
              None \<Rightarrow> ds = {||}
            | Some a \<Rightarrow> (\<exists>ss. ds = fset_of_list ss \<and> a = GSlice (map GString ss))"
  shows "schedule_equiv
           (json_roundtrip (GMap (expandLogicAppTriggerRecurrenceSchedule L
              [Some \<lparr> at_these_hours = Some hs, at_these_minutes = Some ms,
                      on_these_days = Some ds \<rparr>])))
           (GMap s)"
proof -
  let ?a = "\<lparr> at_these_hours = Some hs, at_these_minutes = Some ms, on_these_days = Some ds \<rparr>"
  let ?e = "expandLogicAppTriggerRecurrenceSchedule L [Some ?a]"
  note keys = expand_schedule_keys [OF L, of ?a "[]"]
  have "rel_option same_elements (map_option json_roundtrip (?e k)) (s k)" for k
  proof -
    consider "k = ''hours''" | "k = ''minutes''" | "k = ''weekDays''"
      | "k \<notin> {''hours'', ''minutes'', ''weekDays''}" by (rule three_keys_cases)
    then show ?thesis
    proof cases
      case 1
      then show ?thesis using int_key_equiv [OF L hs ne(1)] keys(1) by simp
    next
      case 2
      then show ?thesis using int_key_equiv [OF L ms ne(2)] keys(2) by simp
    next
      case 3
      then show ?thesis using string_key_equiv [OF L ds ne(3)] keys(3) by simp
    next
      case 4
      have "?e k = None" using 4 keys(4) by blast
      moreover have "s k = None" using 4 wf by (auto simp add: well_formed_schedule_def)
      ultimately show ?thesis by simp
    qed
  qed
  then show ?thesis by (simp add: schedule_equiv_def)
qed

lemma well_formed_recurrence_keys:
  assumes "well_formed_recurrence (GMap r)"
  shows "\<exists>f n sto tzo sco.
           r ''frequency'' = Some (GString f) \<and>
           r ''interval'' = Some (GFloat64 (of_int n)) \<and> \<bar>n\<bar> \<le> 2 ^ 53 \<and>
           r ''startTime'' = map_option GString sto \<and> sto \<noteq> Some [] \<and>
           r ''timeZone'' = map_option GString tzo \<and> tzo \<noteq> Some [] \<and>
           (sto = None \<longrightarrow> tzo = None) \<and>
           r ''schedule'' = map_option GMap sco \<and>
           (\<forall>s. sco = Some s \<longrightarrow> well_formed_schedule (GMap s))"
proof -
  obtain f where f: "r ''frequency'' = Some (GString f)"
    using assms
    by (cases "r ''frequency''"; cases "the (r ''frequency'')")
       (simp_all add: well_formed_recurrence_def is_string_def)
  obtain n where n: "r ''interval'' = Some (GFloat64 (of_int n))" "\<bar>n\<bar> \<le> 2 ^ 53"
  proof -
    obtain i where i: "r ''interval'' = Some i" "whole_number i"
      using assms by (cases "r ''interval''") (simp_all add: well_formed_recurrence_def)
    then obtain x where x: "i = GFloat64 x" "x = of_int (go_int x)" "\<bar>go_int x\<bar> \<le> 2 ^ 53"
      by (cases i) (simp_all add: whole_number_def)
    show ?thesis using that [of "go_int x"] i(1) x by simp
  qed
  obtain sto where sto: "r ''startTime'' = map_option GString sto" "sto \<noteq> Some []"
  proof (cases "r ''startTime''")
    case None
    then show ?thesis using that [of None] by simp
  next
    case (Some v)
    then have "nonempty_string v" using assms by (simp add: well_formed_recurrence_def)
    then obtain t where "v = GString t" "t \<noteq> []"
      by (cases v) (simp_all add: nonempty_string_def)
    then show ?thesis using that [of "Some t"] Some by simp
  qed
  obtain tzo where tzo: "r ''timeZone'' = map_option GString tzo" "tzo \<noteq> Some []"
  proof (cases "r ''timeZone''")
    case None
    then show ?thesis using that [of None] by simp
  next
    case (Some v)
    then have "nonempty_string v" using assms by (simp add: well_formed_recurrence_def)
    then obtain t where "v = GString t" "t \<noteq> []"
      by (cases v) (simp_all add: nonempty_string_def)
    then show ?thesis using that [of "Some t"] Some by simp
  qed
  have both: "sto = None \<longrightarrow> tzo = None"
    using assms sto(1) tzo(1) by (simp add: well_formed_recurrence_def)
  obtain sco where sco: "r ''schedule'' = map_option GMap sco"
      "\<forall>s. sco = Some s \<longrightarrow> well_formed_schedule (GMap s)"
  proof (cases "r ''schedule''")
    case None
    then show ?thesis using that [of None] by simp
  next
    case (Some v)
    then have wf: "well_formed_schedule v" using assms by (simp add: well_formed_recurrence_def)
    then obtain s where "v = GMap s" by (cases v) (simp_all add: well_formed_schedule_def)
    then show ?thesis using that [of "Some s"] Some wf by simp
  qed
  from f n sto tzo both sco show ?thesis by blast
qed

lemma well_formed_document_empty_hours: "well_formed_document document_empty_hours"
proof -
  have d: "dom document_empty_hours = {''type'', ''recurrence''}"
    by (simp add: document_empty_hours_def insert_commute)
  have s: "well_formed_schedule (GMap [''hours'' \<mapsto> GSlice []])"
    by (simp add: well_formed_schedule_def number_array_def)
  have r: "well_formed_recurrence (GMap recurrence_empty_hours)"
    using s
    by (simp add: well_formed_recurrence_def recurrence_empty_hours_def is_string_def
        whole_number_def go_int_def)
  show ?thesis
    unfolding well_formed_document_def
    using d r by (simp add: document_empty_hours_def)
qed

text \<open>
  C3, as amended. Take a well-formed remote document in which no array of the schedule
  object is empty. Flatten its \<^verbatim>\<open>recurrence\<close> object into resource data that hold
  nothing, expand the result and read the document back from JSON: it is the given
  document, up to the order and the multiplicity of the elements of the schedule arrays.
\<close>

theorem expand_flatten_roundtrip:
  assumes L: "set_order_ok L"
    and wf: "well_formed_document D"
    and ne: "schedule_arrays_nonempty D"
  shows "\<exists>r d'. D ''recurrence'' = Some (GMap r) \<and>
                 Read_recurrence r (new_ResourceData x) = Inr d' \<and>
                 document_equiv
                   (wire (resourceLogicAppTriggerRecurrenceCreateUpdate_trigger L d')) D"
proof -
  obtain v where v: "D ''recurrence'' = Some v" "well_formed_recurrence v"
    using wf by (cases "D ''recurrence''") (simp_all add: well_formed_document_def)
  then obtain r where r: "v = GMap r"
    by (cases v) (simp_all add: well_formed_recurrence_def)
  have Dr: "D ''recurrence'' = Some (GMap r)" using v(1) r by simp
  have wfr: "well_formed_recurrence (GMap r)" using v(2) r by simp
  obtain f n sto tzo sco where keys:
      "r ''frequency'' = Some (GString f)"
      "r ''interval'' = Some (GFloat64 (of_int n))" "\<bar>n\<bar> \<le> 2 ^ 53"
      "r ''startTime'' = map_option GString sto" "sto \<noteq> Some []"
      "r ''timeZone'' = map_option GString tzo" "tzo \<noteq> Some []"
      "sto = None \<longrightarrow> tzo = None"
      "r ''schedule'' = map_option GMap sco"
      "\<forall>s. sco = Some s \<longrightarrow> well_formed_schedule (GMap s)"
    using well_formed_recurrence_keys [OF wfr] by blast
  have r_other: "r k = None"
    if "k \<notin> {''frequency'', ''interval'', ''startTime'', ''timeZone'', ''schedule''}" for k
  proof -
    have "dom r \<subseteq> {''frequency'', ''interval'', ''startTime'', ''timeZone'', ''schedule''}"
      using wfr unfolding well_formed_recurrence_def gval.case by (rule conjunct1)
    then show ?thesis using that by (rule outside_dom)
  qed
  have D_type: "D ''type'' = Some (GString ''Recurrence'')"
    using wf by (simp add: well_formed_document_def)
  have D_other: "D k = None" if "k \<noteq> ''type''" "k \<noteq> ''recurrence''" for k
  proof -
    have "dom D = {''type'', ''recurrence''}"
      using wf unfolding well_formed_document_def by (rule conjunct1)
    then have "dom D \<subseteq> {''type'', ''recurrence''}" by (rule equalityD1)
    moreover have "k \<notin> {''type'', ''recurrence''}" using that by simp
    ultimately show ?thesis by (rule outside_dom)
  qed
  define d4 where "d4 =
      \<lparr> resource_id = x, name = None, logic_app_id = None, frequency = Some f,
        interval = Some n, start_time = sto, time_zone = tzo, schedule = [] \<rparr>"
  have read4: "Read_recurrence r (new_ResourceData x) = Read_schedule r d4"
    by (cases sto; cases tzo)
       (simp_all add: Read_recurrence_def Read_frequency_def Read_interval_def
         Read_start_time_def Read_time_zone_def and_then_def assert_string_def
         assert_float64_def index_def keys Let_def go_int_of_int new_ResourceData_def
         d4_def)
  have type_ok: "wire (resourceLogicAppTriggerRecurrenceCreateUpdate_trigger L d') k = D k"
    if "k \<noteq> ''recurrence''" for k d'
    using that D_type D_other [of k]
    by (cases "k = ''type''")
       (simp_all add: wire_def resourceLogicAppTriggerRecurrenceCreateUpdate_trigger_def
         Let_def)
  define r' where "r' sch =
         (\<lambda>k. if k = ''frequency'' then Some (GString f)
                else if k = ''interval'' then Some (GInt n)
                else if k = ''startTime'' then map_option GString sto
                else if k = ''timeZone'' then map_option GString tzo
                else if k = ''schedule'' then sch
                else None)" for sch :: "gval option"
  have r'_schedule: "r' sch ''schedule'' = sch" for sch
    by (simp add: r'_def)
  have plain: "map_option json_roundtrip (r' sch k) = r k" if "k \<noteq> ''schedule''" for k sch
  proof -
    consider "k = ''frequency''" | "k = ''interval''" | "k = ''startTime''" | "k = ''timeZone''"
      | "k = ''schedule''"
      | "k \<notin> {''frequency'', ''interval'', ''startTime'', ''timeZone'', ''schedule''}"
      by (rule five_keys_cases)
    then show ?thesis
    proof cases
      case 5
      then show ?thesis using that by simp
    next
      case 6
      then show ?thesis using r_other [OF 6] by (simp add: r'_def)
    qed (simp_all add: r'_def keys float64_of_int_exact [OF keys(3)] option.map_comp comp_def)
  qed
  have rec_equiv: "recurrence_equiv (json_roundtrip (GMap (r' sch))) (GMap r)"
    if "rel_option schedule_equiv (map_option json_roundtrip sch) (r ''schedule'')" for sch
    using that by (simp add: recurrence_equiv_def plain r'_schedule)
  have fields: "Get_string (frequency (d4\<lparr>schedule := sc\<rparr>)) = f"
      "Get_int (interval (d4\<lparr>schedule := sc\<rparr>)) = n"
      "(if snd (GetOk_string (start_time (d4\<lparr>schedule := sc\<rparr>)))
        then Some (GString (fst (GetOk_string (start_time (d4\<lparr>schedule := sc\<rparr>))))) else None)
         = map_option GString sto"
      "(if snd (GetOk_string (start_time (d4\<lparr>schedule := sc\<rparr>))) \<and>
           snd (GetOk_string (time_zone (d4\<lparr>schedule := sc\<rparr>)))
        then Some (GString (fst (GetOk_string (time_zone (d4\<lparr>schedule := sc\<rparr>))))) else None)
         = map_option GString tzo"
      "schedule (d4\<lparr>schedule := sc\<rparr>) = sc" for sc
    using keys(5,7,8)
    by (cases sto; cases tzo; simp add: d4_def Get_simps GetOk_simps)+
  have trigger_rec:
    "resourceLogicAppTriggerRecurrenceCreateUpdate_trigger L (d4\<lparr>schedule := sc\<rparr>) ''recurrence''
       = Some (GMap (r' (if sc \<noteq> []
                         then Some (GMap (expandLogicAppTriggerRecurrenceSchedule L sc))
                         else None)))" for sc
    unfolding trigger_recurrence_all_keys r'_def fields by (rule refl)
  have doc_equiv:
    "document_equiv
       (wire (resourceLogicAppTriggerRecurrenceCreateUpdate_trigger L (d4\<lparr>schedule := sc\<rparr>))) D"
    if "rel_option schedule_equiv
          (map_option json_roundtrip
             (if sc \<noteq> [] then Some (GMap (expandLogicAppTriggerRecurrenceSchedule L sc))
              else None))
          (r ''schedule'')" for sc
  proof -
    have "wire (resourceLogicAppTriggerRecurrenceCreateUpdate_trigger L (d4\<lparr>schedule := sc\<rparr>))
            ''recurrence''
          = Some (json_roundtrip (GMap (r' (if sc \<noteq> []
                         then Some (GMap (expandLogicAppTriggerRecurrenceSchedule L sc))
                         else None))))"
      by (simp only: wire_def trigger_rec option.map)
    then show ?thesis
      using rec_equiv [OF that] type_ok Dr
      by (simp add: document_equiv_def)
  qed
  show ?thesis
  proof (cases sco)
    case None
    have rd: "Read_recurrence r (new_ResourceData x) = Inr (d4\<lparr>schedule := []\<rparr>)"
      by (simp add: read4 Read_schedule_def index_def keys(9) None Let_def d4_def)
    have "document_equiv
        (wire (resourceLogicAppTriggerRecurrenceCreateUpdate_trigger L (d4\<lparr>schedule := []\<rparr>))) D"
      by (rule doc_equiv) (simp add: keys(9) None)
    with rd Dr show ?thesis by blast
  next
    case (Some s)
    then have wfs: "well_formed_schedule (GMap s)" using keys(10) by simp
    have nes: "pred_option nonempty_array (s ''hours'')"
        "pred_option nonempty_array (s ''minutes'')"
        "pred_option nonempty_array (s ''weekDays'')"
      using ne Dr keys(9) Some by (simp_all add: schedule_arrays_nonempty_def)
    obtain hs ms ds where sets:
        "Set_schedule (flattenLogicAppTriggerRecurrenceSchedule s) d4 =
           d4\<lparr>schedule := [Some \<lparr> at_these_hours = Some hs, at_these_minutes = Some ms,
                                    on_these_days = Some ds \<rparr>]\<rparr>"
        "case s ''hours'' of
              None \<Rightarrow> hs = {||}
            | Some a \<Rightarrow> (\<exists>ns. hs = fset_of_list ns \<and>
                           a = GSlice (map (\<lambda>n. GFloat64 (float64_of_int n)) ns))"
        "case s ''minutes'' of
              None \<Rightarrow> ms = {||}
            | Some a \<Rightarrow> (\<exists>ns. ms = fset_of_list ns \<and>
                           a = GSlice (map (\<lambda>n. GFloat64 (float64_of_int n)) ns))"
        "case s ''weekDays'' of
              None \<Rightarrow> ds = {||}
            | Some a \<Rightarrow> (\<exists>ss. ds = fset_of_list ss \<and> a = GSlice (map GString ss))"
      using read_schedule_well_formed [OF wfs, of d4] by blast
    let ?sc = "[Some \<lparr> at_these_hours = Some hs, at_these_minutes = Some ms,
                       on_these_days = Some ds \<rparr>]"
    have rd: "Read_recurrence r (new_ResourceData x) = Inr (d4\<lparr>schedule := ?sc\<rparr>)"
      by (simp add: read4 Read_schedule_def index_def keys(9) Some Let_def and_then_def
          assert_map_def sets(1))
    have se: "schedule_equiv
           (json_roundtrip (GMap (expandLogicAppTriggerRecurrenceSchedule L ?sc))) (GMap s)"
      by (rule schedule_object_equiv [OF L wfs nes sets(2,3,4)])
    have "document_equiv
        (wire (resourceLogicAppTriggerRecurrenceCreateUpdate_trigger L (d4\<lparr>schedule := ?sc\<rparr>))) D"
      by (rule doc_equiv) (simp add: keys(9) Some se del: json_roundtrip.simps)
    with rd Dr show ?thesis by blast
  qed
qed

theorem expand_flatten_roundtrip_witness:
  "set_order_ok sorted_order \<and> well_formed_document document_weekly \<and>
   schedule_arrays_nonempty document_weekly \<and>
   (\<exists>r d'. document_weekly ''recurrence'' = Some (GMap r) \<and>
           Read_recurrence r (new_ResourceData []) = Inr d' \<and>
           document_equiv
             (wire (resourceLogicAppTriggerRecurrenceCreateUpdate_trigger sorted_order d'))
             document_weekly)"
proof -
  have d: "dom document_weekly = {''type'', ''recurrence''}"
    by (simp add: document_weekly_def insert_commute)
  have s: "well_formed_schedule
             (GMap [''weekDays'' \<mapsto> GSlice [GString ''Monday'', GString ''Friday'']])"
    by (simp add: well_formed_schedule_def string_array_def is_string_def)
  have r: "well_formed_recurrence (GMap recurrence_weekly)"
    using s
    by (simp add: well_formed_recurrence_def recurrence_weekly_def is_string_def
        whole_number_def go_int_def nonempty_string_def)
  have wf: "well_formed_document document_weekly"
    unfolding well_formed_document_def
    using d r by (simp add: document_weekly_def)
  have ne: "schedule_arrays_nonempty document_weekly"
    by (simp add: schedule_arrays_nonempty_def document_weekly_def recurrence_weekly_def
        nonempty_array_def)
  from expand_flatten_roundtrip [OF set_order_ok_sorted wf ne, of "[]"]
    set_order_ok_sorted wf ne
  show ?thesis by (simp only: simp_thms)
qed

text \<open>
  C3, as stated, fails on a well-formed document whose schedule has an empty
  \<^verbatim>\<open>hours\<close> array: the flattened set is empty, the expander omits the key, and the
  document that comes back has the schedule object \<^verbatim>\<open>{}\<close>.
\<close>

theorem expand_flatten_counterexample:
  "set_order_ok sorted_order \<and>
   well_formed_document document_empty_hours \<and>
   document_empty_hours ''recurrence'' = Some (GMap recurrence_empty_hours) \<and>
   Read_recurrence recurrence_empty_hours (new_ResourceData []) =
     Inr ((new_ResourceData [])
            \<lparr>frequency := Some ''Week'', interval := Some 1,
             schedule := [Some \<lparr> at_these_hours = Some {||}, at_these_minutes = Some {||},
                                 on_these_days = Some {||} \<rparr>]\<rparr>) \<and>
   wire (resourceLogicAppTriggerRecurrenceCreateUpdate_trigger sorted_order
           ((new_ResourceData [])
              \<lparr>frequency := Some ''Week'', interval := Some 1,
               schedule := [Some \<lparr> at_these_hours = Some {||}, at_these_minutes = Some {||},
                                   on_these_days = Some {||} \<rparr>]\<rparr>)) =
     [''recurrence'' \<mapsto> GMap [''frequency'' \<mapsto> GString ''Week'', ''interval'' \<mapsto> GFloat64 1,
                              ''schedule'' \<mapsto> GMap Map.empty],
      ''type'' \<mapsto> GString ''Recurrence''] \<and>
   \<not> document_equiv
       (wire (resourceLogicAppTriggerRecurrenceCreateUpdate_trigger sorted_order
           ((new_ResourceData [])
              \<lparr>frequency := Some ''Week'', interval := Some 1,
               schedule := [Some \<lparr> at_these_hours = Some {||}, at_these_minutes = Some {||},
                                   on_these_days = Some {||} \<rparr>]\<rparr>)))
       document_empty_hours"
proof -
  let ?d = "(new_ResourceData [])
              \<lparr>frequency := Some ''Week'', interval := Some 1,
               schedule := [Some \<lparr> at_these_hours = Some {||}, at_these_minutes = Some {||},
                                   on_these_days = Some {||} \<rparr>]\<rparr>"
  have rec: "document_empty_hours ''recurrence'' = Some (GMap recurrence_empty_hours)"
    by (simp add: document_empty_hours_def)
  have flat: "flattenLogicAppTriggerRecurrenceSchedule [''hours'' \<mapsto> GSlice []]
                = [[''at_these_hours'' \<mapsto> GSlice []]]"
    by (simp add: flattenLogicAppTriggerRecurrenceSchedule_def Let_def index_def)
  have dec: "decode_attrs [''at_these_hours'' \<mapsto> GSlice []] =
       Some \<lparr> at_these_hours = Some {||}, at_these_minutes = Some {||},
              on_these_days = Some {||} \<rparr>"
    by (simp add: decode_attrs_def decode_int_set_def decode_string_set_def)
  have rd: "Read_recurrence recurrence_empty_hours (new_ResourceData []) = Inr ?d"
    by (simp add: Read_recurrence_def Read_frequency_def Read_interval_def
        Read_start_time_def Read_time_zone_def Read_schedule_def and_then_def
        assert_string_def assert_float64_def assert_map_def index_def Let_def
        recurrence_empty_hours_def go_int_def flat Set_schedule_def dec
        new_ResourceData_def)
  have ex: "expandLogicAppTriggerRecurrenceSchedule sorted_order
              [Some \<lparr> at_these_hours = Some {||}, at_these_minutes = Some {||},
                      on_these_days = Some {||} \<rparr>] = Map.empty"
    by (simp add: expandLogicAppTriggerRecurrenceSchedule_def Let_def append_each_id
        int_List_empty [OF set_order_ok_sorted] string_List_empty [OF set_order_ok_sorted])
  have one: "float64_of_int 1 = 1"
    using float64_of_int_exact [of 1] by simp
  have out: "wire (resourceLogicAppTriggerRecurrenceCreateUpdate_trigger sorted_order ?d) =
     [''recurrence'' \<mapsto> GMap [''frequency'' \<mapsto> GString ''Week'', ''interval'' \<mapsto> GFloat64 1,
                              ''schedule'' \<mapsto> GMap Map.empty],
      ''type'' \<mapsto> GString ''Recurrence'']"
    by (auto simp add: wire_def resourceLogicAppTriggerRecurrenceCreateUpdate_trigger_def
        Let_def new_ResourceData_def Get_simps GetOk_simps GetOk_list_def ex one fun_eq_iff)
  have neq: "\<not> document_equiv
       [''recurrence'' \<mapsto> GMap [''frequency'' \<mapsto> GString ''Week'', ''interval'' \<mapsto> GFloat64 1,
                              ''schedule'' \<mapsto> GMap Map.empty],
        ''type'' \<mapsto> GString ''Recurrence'']
       document_empty_hours"
  proof
    assume "document_equiv
       [''recurrence'' \<mapsto> GMap [''frequency'' \<mapsto> GString ''Week'', ''interval'' \<mapsto> GFloat64 1,
                              ''schedule'' \<mapsto> GMap Map.empty],
        ''type'' \<mapsto> GString ''Recurrence'']
       document_empty_hours"
    from this [unfolded document_equiv_def, THEN spec, of "''recurrence''"]
    have "recurrence_equiv
        (GMap [''frequency'' \<mapsto> GString ''Week'', ''interval'' \<mapsto> GFloat64 1,
               ''schedule'' \<mapsto> GMap Map.empty])
        (GMap recurrence_empty_hours)"
      by (simp add: document_empty_hours_def)
    from this [unfolded recurrence_equiv_def prod.case gval.case, THEN spec, of "''schedule''"]
    have "schedule_equiv (GMap Map.empty) (GMap [''hours'' \<mapsto> GSlice []])"
      by (simp add: recurrence_empty_hours_def)
    from this [unfolded schedule_equiv_def prod.case gval.case, THEN spec, of "''hours''"]
    show False by simp
  qed
  from set_order_ok_sorted well_formed_document_empty_hours rec rd out neq
  show ?thesis by (simp only: simp_thms)
qed

end
